theory Spec2Isabelle
  imports Main "HOL-Library.Word" "HOL-Library.Sublist"
begin

unbundle bit_operations_syntax

section \<open>The ECDHE/TLS proxy of kmyth (sgx/demo/server/tls\_proxy.c)\<close>

text \<open>
  The proxy is a C program whose behaviour is made of calls into three collaborators:
  the ECDH demo library (\<^verbatim>\<open>ecdh_demo.h\<close>), OpenSSL and libc.  The embedding keeps
  the proxy's own control flow as HOL functions and makes the collaborators explicit:
  \<^item> every external call is recorded as an \<open>event\<close>, in program order, so that a
    function returns the list of calls it made;
  \<^item> what an OpenSSL call returns is read from a record of return values;
  \<^item> the functions of the ECDH demo library are parameters (a record of functions);
  \<^item> \<^verbatim>\<open>exit()\<close> is an outcome of its own: a function either returns, or the process
    ends with a status, or it waits in \<^verbatim>\<open>poll()\<close> for ever.
  Logging (\<^verbatim>\<open>kmyth_log\<close>, \<^verbatim>\<open>log_openssl_error\<close>, \<^verbatim>\<open>ERR_get_error\<close>) has no influence on
  control flow and is left out.
\<close>

subsection \<open>Data\<close>

type_synonym byte = "8 word"

text \<open>A \<^verbatim>\<open>char *\<close> is \<open>None\<close> when it is \<^verbatim>\<open>NULL\<close>; an OpenSSL handle is an address.\<close>

type_synonym cstr = "string option"
type_synonym handle = nat

text \<open>
  \<^verbatim>\<open>ECDHServer\<close> is declared in \<^verbatim>\<open>ecdh_demo.h\<close>; the fields below are the ones that
  \<^verbatim>\<open>tls_proxy.c\<close> reads or writes.
\<close>

record ECDHServer =
  private_key_path :: cstr
  public_cert_path :: cstr
  port :: cstr
  maxconn :: "32 word"
  socket_fd :: int

text \<open>\<^verbatim>\<open>TLSConnection\<close> and \<^verbatim>\<open>TLSProxy\<close> of \<^verbatim>\<open>tls_proxy.h\<close>, as \<^verbatim>\<open>tls_proxy.c\<close> uses them.\<close>

record TLSConnection =
  host :: cstr
  tls_port :: cstr
  ca_path :: cstr
  client_key_path :: cstr
  client_cert_path :: cstr
  ctx :: "handle option"
  conn :: "handle option"

record TLSProxy =
  ecdhconn :: ECDHServer
  tlsconn :: TLSConnection

text \<open>The calls the proxy makes, with the arguments that the claims are about.\<close>

datatype event =
    Call_cleanup
  | Call_check_options
  | Call_create_server_socket
  | Call_load_private_key
  | Call_load_public_key
  | Call_make_ephemeral_keypair
  | Call_recv_ephemeral_public
  | Call_send_ephemeral_public
  | Call_get_session_key
  | Call_ecdh_recv_decrypt
  | Call_ecdh_encrypt_send "byte list"
  | Call_kmyth_clear_and_free "byte list"
  | Call_proxy_usage
  | Call_BIO_free_all handle
  | Call_SSL_CTX_free handle
  | Call_TLS_client_method
  | Call_SSL_CTX_new
  | Call_SSL_CTX_set_min_proto_version int
  | Call_SSL_CTX_set_verify int
  | Call_SSL_CTX_set_verify_depth int
  | Call_SSL_CTX_load_verify_locations string
  | Call_SSL_CTX_set_default_verify_paths
  | Call_SSL_CTX_use_PrivateKey_file string int
  | Call_SSL_CTX_use_certificate_file string int
  | Call_BIO_new_ssl_connect
  | Call_BIO_set_conn_hostname cstr
  | Call_BIO_set_conn_port cstr
  | Call_BIO_get_ssl
  | Call_SSL_set_tlsext_host_name cstr
  | Call_SSL_set1_host cstr
  | Call_BIO_do_connect
  | Call_SSL_get_verify_result
  | Call_BIO_get_fd
  | Call_poll
  | Call_BIO_write "byte list" "32 word"
  | Call_BIO_read nat

text \<open>How a piece of the program ends.\<close>

datatype 'a outcome = Return 'a | Exit int | Blocked

type_synonym 'a run = "'a outcome \<times> TLSProxy \<times> event list"

definition EXIT_FAILURE :: int where "EXIT_FAILURE = 1"
definition TLS1_2_VERSION :: int where "TLS1_2_VERSION = 0x0303"
definition SSL_VERIFY_PEER :: int where "SSL_VERIFY_PEER = 0x01"
definition SSL_FILETYPE_PEM :: int where "SSL_FILETYPE_PEM = 1"
definition POLLIN :: "16 word" where "POLLIN = 0x0001"

text \<open>
  The ECDH demo library.  Each of its functions takes the \<^verbatim>\<open>ECDHServer\<close> by pointer and
  returns nothing: it either comes back with the structure updated (\<open>Inr\<close>) or ends the
  process with a status (\<open>Inl\<close>).  \<^verbatim>\<open>init\<close> and \<^verbatim>\<open>cleanup\<close> are taken to come back.
  \<^verbatim>\<open>ecdh_recv_decrypt\<close> also gets the bytes waiting on the socket and hands back the
  decrypted message.
\<close>

type_synonym ecdh_call = "ECDHServer \<Rightarrow> int + ECDHServer"

record ecdh_demo =
  init :: "ECDHServer \<Rightarrow> ECDHServer"
  cleanup :: "ECDHServer \<Rightarrow> ECDHServer"
  check_options :: ecdh_call
  create_server_socket :: ecdh_call
  load_private_key :: ecdh_call
  load_public_key :: ecdh_call
  make_ephemeral_keypair :: ecdh_call
  recv_ephemeral_public :: ecdh_call
  send_ephemeral_public :: ecdh_call
  get_session_key :: ecdh_call
  ecdh_recv_decrypt :: "ECDHServer \<Rightarrow> byte list \<Rightarrow> int + (ECDHServer \<times> byte list)"
  ecdh_encrypt_send :: "ECDHServer \<Rightarrow> byte list \<Rightarrow> int + ECDHServer"

subsection \<open>Initialisation and teardown\<close>

text \<open>\<^verbatim>\<open>secure_memset(proxy, 0, sizeof(TLSProxy))\<close>: every field becomes zero or \<^verbatim>\<open>NULL\<close>.\<close>

definition zero_ECDHServer :: ECDHServer where
  "zero_ECDHServer =
     \<lparr>private_key_path = None, public_cert_path = None, port = None,
      maxconn = 0, socket_fd = 0\<rparr>"

definition zero_TLSConnection :: TLSConnection where
  "zero_TLSConnection =
     \<lparr>host = None, tls_port = None, ca_path = None, client_key_path = None,
      client_cert_path = None, ctx = None, conn = None\<rparr>"

definition secure_memset_proxy :: "TLSProxy \<Rightarrow> TLSProxy" where
  "secure_memset_proxy p = \<lparr>ecdhconn = zero_ECDHServer, tlsconn = zero_TLSConnection\<rparr>"

definition proxy_init :: "ecdh_demo \<Rightarrow> TLSProxy \<Rightarrow> TLSProxy" where
  "proxy_init lib p =
     (let p1 = secure_memset_proxy p
      in p1\<lparr>ecdhconn := init lib (ecdhconn p1)\<rparr>)"

definition tls_cleanup :: "TLSConnection \<Rightarrow> event list" where
  "tls_cleanup t =
     (case conn t of None \<Rightarrow> [] | Some b \<Rightarrow> [Call_BIO_free_all b]) @
     (case ctx t of None \<Rightarrow> [] | Some c \<Rightarrow> [Call_SSL_CTX_free c])"

definition proxy_cleanup :: "ecdh_demo \<Rightarrow> TLSProxy \<Rightarrow> TLSProxy \<times> event list" where
  "proxy_cleanup lib p =
     (let p1 = p\<lparr>ecdhconn := cleanup lib (ecdhconn p)\<rparr>;
          es = tls_cleanup (tlsconn p1)
      in (proxy_init lib p1, Call_cleanup # es))"

definition proxy_error :: "ecdh_demo \<Rightarrow> TLSProxy \<Rightarrow> 'a run" where
  "proxy_error lib p =
     (case proxy_cleanup lib p of (p', es) \<Rightarrow> (Exit EXIT_FAILURE, p', es))"

subsection \<open>Sequencing\<close>

text \<open>
  Running a piece of the program and then the rest: the rest runs only when the first
  piece returned, and the calls of both are concatenated.
\<close>

definition and_then :: "'a run \<Rightarrow> ('a \<Rightarrow> TLSProxy \<Rightarrow> 'b run) \<Rightarrow> 'b run" where
  "and_then m f =
     (case m of
        (Return a, p, es) \<Rightarrow> (case f a p of (r, p', es') \<Rightarrow> (r, p', es @ es'))
      | (Exit s, p, es) \<Rightarrow> (Exit s, p, es)
      | (Blocked, p, es) \<Rightarrow> (Blocked, p, es))"

text \<open>\<^verbatim>\<open>if (r) { proxy_error(proxy); }\<close>\<close>

definition on_failure :: "ecdh_demo \<Rightarrow> bool \<Rightarrow> TLSProxy \<Rightarrow> unit run" where
  "on_failure lib failed p = (if failed then proxy_error lib p else (Return (), p, []))"

subsection \<open>TLS setup\<close>

text \<open>
  What the OpenSSL calls of one session return.  \<^verbatim>\<open>BIO_get_ssl\<close> is called in two places,
  in \<^verbatim>\<open>tls_config_conn\<close> and in \<^verbatim>\<open>tls_get_verify_error\<close>, and has a result for each.
\<close>

record openssl =
  TLS_client_method_r :: bool
  SSL_CTX_new_r :: "handle option"
  SSL_CTX_set_min_proto_version_r :: int
  SSL_CTX_load_verify_locations_r :: int
  SSL_CTX_set_default_verify_paths_r :: int
  SSL_CTX_use_PrivateKey_file_r :: int
  SSL_CTX_use_certificate_file_r :: int
  BIO_new_ssl_connect_r :: "handle option"
  BIO_set_conn_hostname_r :: int
  BIO_set_conn_port_r :: int
  BIO_get_ssl_r :: "handle option"
  SSL_set_tlsext_host_name_r :: int
  SSL_set1_host_r :: int
  BIO_do_connect_r :: int
  verify_error_BIO_get_ssl_r :: "handle option"

text \<open>
  The three TLS functions are straight-line sequences of calls, each followed by a check
  that returns -1; at the end they return 0.  A step is such a call: whether it passed
  its check, the connection afterwards, and the call made.
\<close>

type_synonym tls_step = "TLSConnection \<Rightarrow> bool \<times> TLSConnection \<times> event list"

definition call :: "event \<Rightarrow> bool \<Rightarrow> tls_step" where
  "call ev ok t = (ok, t, [ev])"

definition skip :: tls_step where
  "skip t = (True, t, [])"

fun steps :: "tls_step list \<Rightarrow> TLSConnection \<Rightarrow> int \<times> TLSConnection \<times> event list" where
  "steps [] t = (0, t, [])"
| "steps (s # ss) t =
     (case s t of
        (ok, t', es) \<Rightarrow>
          if ok then (case steps ss t' of (r, t'', es') \<Rightarrow> (r, t'', es @ es'))
          else (- 1, t', es))"

definition tls_config_ctx :: "openssl \<Rightarrow> TLSConnection \<Rightarrow> int \<times> TLSConnection \<times> event list" where
  "tls_config_ctx os =
     steps
      [call Call_TLS_client_method (TLS_client_method_r os),
       (\<lambda>t. call Call_SSL_CTX_new (SSL_CTX_new_r os \<noteq> None) (t\<lparr>ctx := SSL_CTX_new_r os\<rparr>)),
       call (Call_SSL_CTX_set_min_proto_version TLS1_2_VERSION)
         (SSL_CTX_set_min_proto_version_r os = 1),
       call (Call_SSL_CTX_set_verify SSL_VERIFY_PEER) True,
       call (Call_SSL_CTX_set_verify_depth 5) True,
       (\<lambda>t. case ca_path t of
               Some f \<Rightarrow>
                 call (Call_SSL_CTX_load_verify_locations f)
                   (SSL_CTX_load_verify_locations_r os = 1) t
             | None \<Rightarrow>
                 call Call_SSL_CTX_set_default_verify_paths
                   (SSL_CTX_set_default_verify_paths_r os = 1) t),
       (\<lambda>t. case client_key_path t of
               Some f \<Rightarrow>
                 call (Call_SSL_CTX_use_PrivateKey_file f SSL_FILETYPE_PEM)
                   (SSL_CTX_use_PrivateKey_file_r os = 1) t
             | None \<Rightarrow> skip t),
       (\<lambda>t. case client_cert_path t of
               Some f \<Rightarrow>
                 call (Call_SSL_CTX_use_certificate_file f SSL_FILETYPE_PEM)
                   (SSL_CTX_use_certificate_file_r os = 1) t
             | None \<Rightarrow> skip t)]"

definition tls_config_conn :: "openssl \<Rightarrow> TLSConnection \<Rightarrow> int \<times> TLSConnection \<times> event list" where
  "tls_config_conn os =
     steps
      [(\<lambda>t. call Call_BIO_new_ssl_connect (BIO_new_ssl_connect_r os \<noteq> None)
              (t\<lparr>conn := BIO_new_ssl_connect_r os\<rparr>)),
       (\<lambda>t. call (Call_BIO_set_conn_hostname (host t)) (BIO_set_conn_hostname_r os = 1) t),
       (\<lambda>t. call (Call_BIO_set_conn_port (tls_port t)) (BIO_set_conn_port_r os = 1) t),
       call Call_BIO_get_ssl (BIO_get_ssl_r os \<noteq> None),
       (\<lambda>t. call (Call_SSL_set_tlsext_host_name (host t))
              (SSL_set_tlsext_host_name_r os = 1) t),
       (\<lambda>t. call (Call_SSL_set1_host (host t)) (SSL_set1_host_r os = 1) t)]"

text \<open>
  \<^verbatim>\<open>tls_get_verify_error\<close> (lines 316-336) changes nothing: it fetches the \<^verbatim>\<open>SSL\<close> of the
  connection and, if there is one, reads the verification result for the log.
\<close>

definition tls_get_verify_error :: "openssl \<Rightarrow> TLSConnection \<Rightarrow> event list" where
  "tls_get_verify_error os t =
     (case verify_error_BIO_get_ssl_r os of
        None \<Rightarrow> [Call_BIO_get_ssl]
      | Some ssl \<Rightarrow> [Call_BIO_get_ssl, Call_SSL_get_verify_result])"

text \<open>
  \<^verbatim>\<open>tls_connect\<close> (lines 338-354): a failed \<^verbatim>\<open>BIO_do_connect\<close> is followed by
  \<^verbatim>\<open>tls_get_verify_error\<close> before -1 is returned.
\<close>

definition tls_connect :: "openssl \<Rightarrow> TLSConnection \<Rightarrow> int \<times> TLSConnection \<times> event list" where
  "tls_connect os =
     steps
      [(\<lambda>t. if BIO_do_connect_r os = 1 then call Call_BIO_do_connect True t
             else (False, t, Call_BIO_do_connect # tls_get_verify_error os t))]"

text \<open>Calling one of them on \<^verbatim>\<open>&proxy->tlsconn\<close>.\<close>

definition on_tlsconn ::
  "(TLSConnection \<Rightarrow> int \<times> TLSConnection \<times> event list) \<Rightarrow> TLSProxy \<Rightarrow> int run" where
  "on_tlsconn f p = (case f (tlsconn p) of (r, t, es) \<Rightarrow> (Return r, p\<lparr>tlsconn := t\<rparr>, es))"

definition setup_tlsconn :: "ecdh_demo \<Rightarrow> openssl \<Rightarrow> TLSProxy \<Rightarrow> int run" where
  "setup_tlsconn lib os p =
     and_then (on_tlsconn (tls_config_ctx os) p) (\<lambda>r p.
     and_then (on_failure lib (r \<noteq> 0) p) (\<lambda>_ p.
     and_then (on_tlsconn (tls_config_conn os) p) (\<lambda>r p.
     and_then (on_failure lib (r \<noteq> 0) p) (\<lambda>_ p.
     and_then (on_tlsconn (tls_connect os) p) (\<lambda>r p.
     and_then (on_failure lib (r \<noteq> 0) p) (\<lambda>_ p.
     (Return 0, p, [])))))))"

subsection \<open>ECDH setup\<close>



subsection \<open>The relay loop\<close>

text \<open>
  One wake-up of \<^verbatim>\<open>poll()\<close>: the \<^verbatim>\<open>revents\<close> of the two descriptors, the bytes waiting on
  the ECDH socket, what \<^verbatim>\<open>BIO_write\<close> returns, and what \<^verbatim>\<open>BIO_read\<close> returns and
  delivers.  \<^verbatim>\<open>int\<close> is 32 bits wide and \<^verbatim>\<open>size_t\<close> 64 bits (LP64).
\<close>

record poll_round =
  revents0 :: "16 word"
  revents1 :: "16 word"
  socket_in :: "byte list"
  BIO_write_r :: "32 word"
  BIO_read_r :: "32 word"
  BIO_read_data :: "byte list"

datatype loop_ctl = Continue | Break

text \<open>
  Lines 423-434, the body of \<^verbatim>\<open>if (pfds[0].revents & POLLIN)\<close>.  The comparison
  \<^verbatim>\<open>bytes_written != ecdh_msg_len\<close> is between an \<^verbatim>\<open>int\<close> and a \<^verbatim>\<open>size_t\<close>: the \<^verbatim>\<open>int\<close> is
  converted to \<^verbatim>\<open>size_t\<close> (sign-extended).  \<^verbatim>\<open>BIO_write\<close> takes the length as an \<^verbatim>\<open>int\<close>.
\<close>

definition relay_inbound :: "ecdh_demo \<Rightarrow> poll_round \<Rightarrow> TLSProxy \<Rightarrow> unit run" where
  "relay_inbound lib r p =
     (case ecdh_recv_decrypt lib (ecdhconn p) (socket_in r) of
        Inl status \<Rightarrow> (Exit status, p, [Call_ecdh_recv_decrypt])
      | Inr (e, ecdh_msg_buf) \<Rightarrow>
          (let ecdh_msg_len = (word_of_nat (length ecdh_msg_buf) :: 64 word);
               bytes_written = BIO_write_r r
           in and_then
                (Return (), p\<lparr>ecdhconn := e\<rparr>,
                 [Call_ecdh_recv_decrypt, Call_BIO_write ecdh_msg_buf (ucast ecdh_msg_len)])
                (\<lambda>_ p.
              and_then (on_failure lib ((scast bytes_written :: 64 word) \<noteq> ecdh_msg_len) p)
                (\<lambda>_ p.
              (Return (), p, [Call_kmyth_clear_and_free ecdh_msg_buf])))))"

text \<open>\<^verbatim>\<open>BIO_read\<close> stores the bytes it read at the start of the buffer.\<close>

definition store_at_start :: "byte list \<Rightarrow> byte list \<Rightarrow> byte list" where
  "store_at_start buf d = take (length buf) (d @ drop (length d) buf)"

text \<open>
  Lines 436-451, the body of \<^verbatim>\<open>if (pfds[1].revents & POLLIN)\<close>; \<open>M\<close> is
  \<^verbatim>\<open>ECDH_MAX_MSG_SIZE\<close>, the size of \<^verbatim>\<open>tls_msg_buf\<close>.
\<close>

definition relay_outbound ::
  "ecdh_demo \<Rightarrow> nat \<Rightarrow> poll_round \<Rightarrow> byte list \<Rightarrow> TLSProxy \<Rightarrow> (loop_ctl \<times> byte list) run" where
  "relay_outbound lib M r tls_msg_buf p =
     (let bytes_read = BIO_read_r r;
          buf = (if 0 < sint bytes_read
                 then store_at_start tls_msg_buf (take (nat (sint bytes_read)) (BIO_read_data r))
                 else tls_msg_buf)
      in if bytes_read = 0 then (Return (Break, buf), p, [Call_BIO_read M])
         else if sint bytes_read < 0 then
           and_then (Return (), p, [Call_BIO_read M]) (\<lambda>_ p. proxy_error lib p)
         else
           (let msg = take (nat (sint bytes_read)) buf
            in case ecdh_encrypt_send lib (ecdhconn p) msg of
                 Inl status \<Rightarrow> (Exit status, p, [Call_BIO_read M, Call_ecdh_encrypt_send msg])
               | Inr e \<Rightarrow>
                   (Return (Continue, buf), p\<lparr>ecdhconn := e\<rparr>,
                    [Call_BIO_read M, Call_ecdh_encrypt_send msg])))"

text \<open>The body of \<^verbatim>\<open>while (true)\<close>, lines 420-451.\<close>

definition proxy_iter ::
  "ecdh_demo \<Rightarrow> nat \<Rightarrow> poll_round \<Rightarrow> byte list \<Rightarrow> TLSProxy \<Rightarrow> (loop_ctl \<times> byte list) run" where
  "proxy_iter lib M r tls_msg_buf p =
     and_then (Return (), p, [Call_poll]) (\<lambda>_ p.
     and_then (if revents0 r AND POLLIN \<noteq> 0 then relay_inbound lib r p else (Return (), p, []))
       (\<lambda>_ p.
     if revents1 r AND POLLIN \<noteq> 0 then relay_outbound lib M r tls_msg_buf p
     else (Return (Continue, tls_msg_buf), p, [])))"

text \<open>
  The loop.  When the wake-ups run out the process waits in \<^verbatim>\<open>poll()\<close>, which has no
  timeout.
\<close>

fun proxy_loop :: "ecdh_demo \<Rightarrow> nat \<Rightarrow> poll_round list \<Rightarrow> byte list \<Rightarrow> TLSProxy \<Rightarrow> unit run" where
  "proxy_loop lib M [] tls_msg_buf p = (Blocked, p, [Call_poll])"
| "proxy_loop lib M (r # rs) tls_msg_buf p =
     (case proxy_iter lib M r tls_msg_buf p of
        (Return (Continue, buf), p', es) \<Rightarrow>
          (case proxy_loop lib M rs buf p' of (res, p'', es') \<Rightarrow> (res, p'', es @ es'))
      | (Return (Break, buf), p', es) \<Rightarrow> (Return (), p', es)
      | (Exit status, p', es) \<Rightarrow> (Exit status, p', es)
      | (Blocked, p', es) \<Rightarrow> (Blocked, p', es))"



subsection \<open>Options and \<^verbatim>\<open>main\<close>\<close>

text \<open>
  \<^verbatim>\<open>atoi\<close> stores a C \<^verbatim>\<open>int\<close>.  In the C library of the platform it is
  \<^verbatim>\<open>(int) strtol(s, NULL, 10)\<close>: white space, an optional sign, then decimal digits; the
  value saturates at the range of \<^verbatim>\<open>long\<close> (64 bits) and the conversion to \<^verbatim>\<open>int\<close> keeps
  the low 32 bits.
\<close>

definition is_digit :: "char \<Rightarrow> bool" where
  "is_digit c = (48 \<le> (of_char c :: nat) \<and> (of_char c :: nat) \<le> 57)"

definition is_space :: "char \<Rightarrow> bool" where
  "is_space c = ((of_char c :: nat) = 32 \<or> (9 \<le> (of_char c :: nat) \<and> (of_char c :: nat) \<le> 13))"

fun digits_value :: "int \<Rightarrow> string \<Rightarrow> int" where
  "digits_value acc [] = acc"
| "digits_value acc (c # cs) =
     (if is_digit c then digits_value (10 * acc + (of_char c - 48)) cs else acc)"

definition strtol :: "string \<Rightarrow> int" where
  "strtol s =
     (let v = (case dropWhile is_space s of
                 [] \<Rightarrow> 0
               | c # cs \<Rightarrow>
                   if c = CHR ''-'' then - digits_value 0 cs
                   else if c = CHR ''+'' then digits_value 0 cs
                   else digits_value 0 (c # cs))
      in max (- (2 ^ 63)) (min (2 ^ 63 - 1) v))"

definition atoi :: "string \<Rightarrow> 32 word" where
  "atoi s = word_of_int (strtol s)"







subsection \<open>Reading a run\<close>

abbreviation result :: "'a run \<Rightarrow> 'a outcome" where
  "result m \<equiv> fst m"

abbreviation final :: "'a run \<Rightarrow> TLSProxy" where
  "final m \<equiv> fst (snd m)"

abbreviation calls :: "'a run \<Rightarrow> event list" where
  "calls m \<equiv> snd (snd m)"

text \<open>The calls made before the first \<^verbatim>\<open>BIO_do_connect\<close>.\<close>

definition before_connect :: "event list \<Rightarrow> event list" where
  "before_connect es = takeWhile (\<lambda>e. e \<noteq> Call_BIO_do_connect) es"

text \<open>The first half of a loop iteration: the inbound direction, when it is readable.\<close>

definition inbound_part :: "ecdh_demo \<Rightarrow> poll_round \<Rightarrow> TLSProxy \<Rightarrow> unit run" where
  "inbound_part lib r p =
     (if revents0 r AND POLLIN \<noteq> 0 then relay_inbound lib r p else (Return (), p, []))"


text \<open>The calls of a \<^verbatim>\<open>tls_config_ctx\<close> and of a \<^verbatim>\<open>tls_config_conn\<close> that return 0.\<close>

definition ctx_calls :: "TLSConnection \<Rightarrow> event list" where
  "ctx_calls t =
     [Call_TLS_client_method, Call_SSL_CTX_new,
      Call_SSL_CTX_set_min_proto_version TLS1_2_VERSION,
      Call_SSL_CTX_set_verify SSL_VERIFY_PEER,
      Call_SSL_CTX_set_verify_depth 5,
      (case ca_path t of
         Some f \<Rightarrow> Call_SSL_CTX_load_verify_locations f
       | None \<Rightarrow> Call_SSL_CTX_set_default_verify_paths)] @
     (case client_key_path t of
        Some f \<Rightarrow> [Call_SSL_CTX_use_PrivateKey_file f SSL_FILETYPE_PEM]
      | None \<Rightarrow> []) @
     (case client_cert_path t of
        Some f \<Rightarrow> [Call_SSL_CTX_use_certificate_file f SSL_FILETYPE_PEM]
      | None \<Rightarrow> [])"

definition conn_calls :: "TLSConnection \<Rightarrow> event list" where
  "conn_calls t =
     [Call_BIO_new_ssl_connect, Call_BIO_set_conn_hostname (host t),
      Call_BIO_set_conn_port (tls_port t), Call_BIO_get_ssl,
      Call_SSL_set_tlsext_host_name (host t), Call_SSL_set1_host (host t)]"

text \<open>Every OpenSSL call of the TLS setup succeeds.\<close>

definition all_succeed :: "openssl \<Rightarrow> bool" where
  "all_succeed os \<longleftrightarrow>
     TLS_client_method_r os \<and> SSL_CTX_new_r os \<noteq> None \<and>
     SSL_CTX_set_min_proto_version_r os = 1 \<and>
     SSL_CTX_load_verify_locations_r os = 1 \<and>
     SSL_CTX_set_default_verify_paths_r os = 1 \<and>
     SSL_CTX_use_PrivateKey_file_r os = 1 \<and>
     SSL_CTX_use_certificate_file_r os = 1 \<and>
     BIO_new_ssl_connect_r os \<noteq> None \<and>
     BIO_set_conn_hostname_r os = 1 \<and>
     BIO_set_conn_port_r os = 1 \<and>
     BIO_get_ssl_r os \<noteq> None \<and>
     SSL_set_tlsext_host_name_r os = 1 \<and>
     SSL_set1_host_r os = 1 \<and>
     BIO_do_connect_r os = 1"





subsection \<open>Sample inputs\<close>

text \<open>
  An ECDH library in which every call comes back, \<^verbatim>\<open>init\<close> marks the socket as unset
  and the bytes on the socket are the message; an OpenSSL in which every call succeeds;
  a proxy as the options leave it, the same proxy once connected, and with client
  credentials; a five-byte message; a wake-up for each direction.
\<close>

definition loopback_lib :: ecdh_demo where
  "loopback_lib =
     \<lparr>init = (\<lambda>e. e\<lparr>socket_fd := - 1\<rparr>), cleanup = (\<lambda>e. e),
      check_options = Inr, create_server_socket = (\<lambda>e. Inr (e\<lparr>socket_fd := 4\<rparr>)),
      load_private_key = Inr, load_public_key = Inr, make_ephemeral_keypair = Inr,
      recv_ephemeral_public = Inr, send_ephemeral_public = Inr, get_session_key = Inr,
      ecdh_recv_decrypt = (\<lambda>e bs. Inr (e, bs)), ecdh_encrypt_send = (\<lambda>e bs. Inr e)\<rparr>"

definition openssl_ok :: openssl where
  "openssl_ok =
     \<lparr>TLS_client_method_r = True, SSL_CTX_new_r = Some 1,
      SSL_CTX_set_min_proto_version_r = 1, SSL_CTX_load_verify_locations_r = 1,
      SSL_CTX_set_default_verify_paths_r = 1, SSL_CTX_use_PrivateKey_file_r = 1,
      SSL_CTX_use_certificate_file_r = 1, BIO_new_ssl_connect_r = Some 2,
      BIO_set_conn_hostname_r = 1, BIO_set_conn_port_r = 1, BIO_get_ssl_r = Some 3,
      SSL_set_tlsext_host_name_r = 1, SSL_set1_host_r = 1, BIO_do_connect_r = 1,
      verify_error_BIO_get_ssl_r = Some 3\<rparr>"

definition sample_proxy :: TLSProxy where
  "sample_proxy =
     \<lparr>ecdhconn =
        \<lparr>private_key_path = Some ''proxy.pem'', public_cert_path = Some ''peer.pem'',
         port = Some ''7000'', maxconn = 0, socket_fd = 4\<rparr>,
      tlsconn =
        \<lparr>host = Some ''keyserver'', tls_port = Some ''443'', ca_path = None,
         client_key_path = None, client_cert_path = None, ctx = None, conn = None\<rparr>\<rparr>"

definition connected_proxy :: TLSProxy where
  "connected_proxy =
     sample_proxy\<lparr>tlsconn := (tlsconn sample_proxy)\<lparr>ctx := Some 1, conn := Some 2\<rparr>\<rparr>"

definition key_only_proxy :: TLSProxy where
  "key_only_proxy =
     sample_proxy\<lparr>tlsconn := (tlsconn sample_proxy)\<lparr>client_key_path := Some ''client.key''\<rparr>\<rparr>"

definition mutual_tls_proxy :: TLSProxy where
  "mutual_tls_proxy =
     sample_proxy\<lparr>tlsconn := (tlsconn sample_proxy)
       \<lparr>client_key_path := Some ''client.key'', client_cert_path := Some ''client.crt''\<rparr>\<rparr>"


definition hello :: "byte list" where
  "hello = [104, 101, 108, 108, 111]"

definition inbound_round :: "32 word \<Rightarrow> poll_round" where
  "inbound_round written =
     \<lparr>revents0 = POLLIN, revents1 = 0, socket_in = hello, BIO_write_r = written,
      BIO_read_r = 0, BIO_read_data = []\<rparr>"

definition outbound_round :: "32 word \<Rightarrow> byte list \<Rightarrow> poll_round" where
  "outbound_round n bs =
     \<lparr>revents0 = 0, revents1 = POLLIN, socket_in = [], BIO_write_r = 0,
      BIO_read_r = n, BIO_read_data = bs\<rparr>"

section \<open>Properties\<close>

subsection \<open>Sequencing\<close>

lemma and_then_Return [simp]:
  "and_then (Return a, p, es) f = (case f a p of (r, p', es') \<Rightarrow> (r, p', es @ es'))"
  by (simp add: and_then_def)

lemma and_then_Exit [simp]: "and_then (Exit s, p, es) f = (Exit s, p, es)"
  by (simp add: and_then_def)

lemma and_then_Blocked [simp]: "and_then (Blocked, p, es) f = (Blocked, p, es)"
  by (simp add: and_then_def)

subsection \<open>Teardown\<close>

lemma proxy_cleanup_state: "fst (proxy_cleanup lib p) = proxy_init lib q"
  by (simp add: proxy_cleanup_def Let_def proxy_init_def secure_memset_proxy_def)

lemma tlsconn_proxy_init: "tlsconn (proxy_init lib p) = zero_TLSConnection"
  by (simp add: proxy_init_def secure_memset_proxy_def)

lemma tls_cleanup_zero: "tls_cleanup zero_TLSConnection = []"
  by (simp add: tls_cleanup_def zero_TLSConnection_def)

text \<open>
  Claim C10.  Whatever the proxy holds, \<^verbatim>\<open>proxy_cleanup\<close> leaves it in the state that
  \<^verbatim>\<open>proxy_init\<close> produces.  Hence running \<^verbatim>\<open>proxy_cleanup\<close> a second time changes
  nothing, and the second run frees no TLS handle: both handles are \<^verbatim>\<open>NULL\<close> by then,
  so its only call is the \<^verbatim>\<open>cleanup\<close> of the ECDH library.
\<close>

theorem proxy_cleanup_reinitialises:
  "fst (proxy_cleanup lib p) = proxy_init lib p
   \<and> fst (proxy_cleanup lib (fst (proxy_cleanup lib p))) = fst (proxy_cleanup lib p)
   \<and> snd (proxy_cleanup lib (fst (proxy_cleanup lib p))) = [Call_cleanup]
   \<and> ctx (tlsconn (fst (proxy_cleanup lib p))) = None
   \<and> conn (tlsconn (fst (proxy_cleanup lib p))) = None"
proof -
  have "fst (proxy_cleanup lib p) = proxy_init lib p"
    by (rule proxy_cleanup_state)
  moreover have "fst (proxy_cleanup lib (fst (proxy_cleanup lib p))) = fst (proxy_cleanup lib p)"
    by (simp add: proxy_cleanup_state [of lib _ p])
  moreover have "snd (proxy_cleanup lib (fst (proxy_cleanup lib p))) = [Call_cleanup]"
    by (simp add: proxy_cleanup_state [of lib p p])
      (simp add: proxy_cleanup_def Let_def tlsconn_proxy_init tls_cleanup_zero)
  moreover have "tlsconn (fst (proxy_cleanup lib p)) = zero_TLSConnection"
    by (simp add: proxy_cleanup_state [of lib p p] tlsconn_proxy_init)
  ultimately show ?thesis
    by (simp add: zero_TLSConnection_def)
qed

subsection \<open>TLS setup\<close>

lemma tls_config_ctx_prefix: "prefix (snd (snd (tls_config_ctx os t))) (ctx_calls t)"
  by (simp add: tls_config_ctx_def ctx_calls_def call_def skip_def split: option.splits)

lemma tls_config_ctx_ok:
  "fst (tls_config_ctx os t) = 0 \<Longrightarrow>
   tls_config_ctx os t = (0, t\<lparr>ctx := SSL_CTX_new_r os\<rparr>, ctx_calls t)"
  by (simp add: tls_config_ctx_def ctx_calls_def call_def skip_def split: option.splits if_splits)

lemma tls_config_ctx_ok_iff:
  "fst (tls_config_ctx os t) = 0 \<longleftrightarrow>
    TLS_client_method_r os \<and> SSL_CTX_new_r os \<noteq> None \<and> SSL_CTX_set_min_proto_version_r os = 1 \<and>
    (case ca_path t of Some f \<Rightarrow> SSL_CTX_load_verify_locations_r os = 1 | None \<Rightarrow> SSL_CTX_set_default_verify_paths_r os = 1) \<and>
    (case client_key_path t of Some f \<Rightarrow> SSL_CTX_use_PrivateKey_file_r os = 1 | None \<Rightarrow> True) \<and>
    (case client_cert_path t of Some f \<Rightarrow> SSL_CTX_use_certificate_file_r os = 1 | None \<Rightarrow> True)"
  by (simp add: tls_config_ctx_def ctx_calls_def call_def skip_def split: option.splits if_splits)

lemma tls_config_conn_prefix: "prefix (snd (snd (tls_config_conn os t))) (conn_calls t)"
  by (simp add: tls_config_conn_def conn_calls_def call_def skip_def split: option.splits)

lemma tls_config_conn_ok:
  "fst (tls_config_conn os t) = 0 \<Longrightarrow>
   tls_config_conn os t = (0, t\<lparr>conn := BIO_new_ssl_connect_r os\<rparr>, conn_calls t)"
  by (simp add: tls_config_conn_def conn_calls_def call_def skip_def split: option.splits if_splits)

lemma tls_config_conn_ok_iff:
  "fst (tls_config_conn os t) = 0 \<longleftrightarrow>
    BIO_new_ssl_connect_r os \<noteq> None \<and> BIO_set_conn_hostname_r os = 1 \<and> BIO_set_conn_port_r os = 1 \<and>
    BIO_get_ssl_r os \<noteq> None \<and> SSL_set_tlsext_host_name_r os = 1 \<and> SSL_set1_host_r os = 1"
  by (simp add: tls_config_conn_def call_def split: option.splits if_splits)

lemma tls_connect_eq:
  "tls_connect os t =
     (if BIO_do_connect_r os = 1 then (0, t, [Call_BIO_do_connect])
      else (- 1, t, Call_BIO_do_connect # tls_get_verify_error os t))"
  by (simp add: tls_connect_def call_def)

lemma no_connect_in_verify_error: "Call_BIO_do_connect \<notin> set (tls_get_verify_error os t)"
  by (simp add: tls_get_verify_error_def split: option.splits)


lemma proxy_error_eq:
  "proxy_error lib p = (Exit EXIT_FAILURE, proxy_init lib q, Call_cleanup # tls_cleanup (tlsconn p))"
  by (simp add: proxy_error_def proxy_cleanup_def Let_def proxy_init_def secure_memset_proxy_def)

lemma no_connect_in_cleanup: "Call_BIO_do_connect \<notin> set (tls_cleanup t)"
  by (simp add: tls_cleanup_def split: option.splits)

lemma no_connect_in_ctx_calls: "Call_BIO_do_connect \<notin> set (ctx_calls t)"
  by (simp add: ctx_calls_def split: option.splits)

lemma no_connect_in_conn_calls: "Call_BIO_do_connect \<notin> set (conn_calls t)"
  by (simp add: conn_calls_def)

lemma setup_tlsconn_ctx_fails:
  assumes "fst (tls_config_ctx os (tlsconn p)) \<noteq> 0"
  shows "setup_tlsconn lib os p =
     (Exit EXIT_FAILURE, proxy_init lib p,
      snd (snd (tls_config_ctx os (tlsconn p))) @
      Call_cleanup # tls_cleanup (fst (snd (tls_config_ctx os (tlsconn p)))))"
  using assms
  by (cases "tls_config_ctx os (tlsconn p)")
     (simp add: setup_tlsconn_def on_tlsconn_def on_failure_def proxy_error_eq [of lib _ p])

lemma setup_tlsconn_conn_fails:
  assumes "fst (tls_config_ctx os (tlsconn p)) = 0"
    and "fst (tls_config_conn os ((tlsconn p)\<lparr>ctx := SSL_CTX_new_r os\<rparr>)) \<noteq> 0"
  shows "setup_tlsconn lib os p =
     (Exit EXIT_FAILURE, proxy_init lib p,
      ctx_calls (tlsconn p) @
      snd (snd (tls_config_conn os ((tlsconn p)\<lparr>ctx := SSL_CTX_new_r os\<rparr>))) @
      Call_cleanup #
      tls_cleanup (fst (snd (tls_config_conn os ((tlsconn p)\<lparr>ctx := SSL_CTX_new_r os\<rparr>)))))"
  using assms(2) tls_config_ctx_ok [OF assms(1)]
  by (cases "tls_config_conn os ((tlsconn p)\<lparr>ctx := SSL_CTX_new_r os\<rparr>)")
     (simp add: setup_tlsconn_def on_tlsconn_def on_failure_def proxy_error_eq [of lib _ p])

lemma setup_tlsconn_connect:
  assumes "fst (tls_config_ctx os (tlsconn p)) = 0"
    and "fst (tls_config_conn os ((tlsconn p)\<lparr>ctx := SSL_CTX_new_r os\<rparr>)) = 0"
  shows "setup_tlsconn lib os p =
     (if BIO_do_connect_r os = 1
      then (Return 0,
            p\<lparr>tlsconn := (tlsconn p)\<lparr>ctx := SSL_CTX_new_r os, conn := BIO_new_ssl_connect_r os\<rparr>\<rparr>,
            ctx_calls (tlsconn p) @ conn_calls (tlsconn p) @ [Call_BIO_do_connect])
      else (Exit EXIT_FAILURE, proxy_init lib p,
            ctx_calls (tlsconn p) @ conn_calls (tlsconn p) @ [Call_BIO_do_connect] @
            tls_get_verify_error os
              ((tlsconn p)\<lparr>ctx := SSL_CTX_new_r os, conn := BIO_new_ssl_connect_r os\<rparr>) @
            Call_cleanup #
            tls_cleanup ((tlsconn p)\<lparr>ctx := SSL_CTX_new_r os, conn := BIO_new_ssl_connect_r os\<rparr>)))"
  using tls_config_ctx_ok [OF assms(1)] tls_config_conn_ok [OF assms(2)]
  by (simp add: setup_tlsconn_def on_tlsconn_def on_failure_def tls_connect_eq
        proxy_error_eq [of lib _ p] conn_calls_def)

lemma no_connect_in_prefix:
  "prefix es fs \<Longrightarrow> Call_BIO_do_connect \<notin> set fs \<Longrightarrow> Call_BIO_do_connect \<notin> set es"
  by (auto simp: prefix_def)

lemma connect_attempted_iff:
  "Call_BIO_do_connect \<in> set (calls (setup_tlsconn lib os p)) \<longleftrightarrow>
     fst (tls_config_ctx os (tlsconn p)) = 0 \<and>
     fst (tls_config_conn os ((tlsconn p)\<lparr>ctx := SSL_CTX_new_r os\<rparr>)) = 0"
proof (cases "fst (tls_config_ctx os (tlsconn p)) = 0")
  case False
  have "Call_BIO_do_connect \<notin> set (snd (snd (tls_config_ctx os (tlsconn p))))"
    by (rule no_connect_in_prefix [OF tls_config_ctx_prefix no_connect_in_ctx_calls])
  with False show ?thesis
    by (simp add: setup_tlsconn_ctx_fails no_connect_in_cleanup)
next
  case True
  show ?thesis
  proof (cases "fst (tls_config_conn os ((tlsconn p)\<lparr>ctx := SSL_CTX_new_r os\<rparr>)) = 0")
    case False
    have "Call_BIO_do_connect \<notin>
        set (snd (snd (tls_config_conn os ((tlsconn p)\<lparr>ctx := SSL_CTX_new_r os\<rparr>))))"
      by (rule no_connect_in_prefix [OF tls_config_conn_prefix no_connect_in_conn_calls])
    with True False show ?thesis
      by (simp add: setup_tlsconn_conn_fails no_connect_in_cleanup no_connect_in_ctx_calls)
  next
    case c: True
    with True show ?thesis
      by (simp add: setup_tlsconn_connect)
  qed
qed

lemma before_connect_setup:
  assumes "Call_BIO_do_connect \<in> set (calls (setup_tlsconn lib os p))"
  shows "before_connect (calls (setup_tlsconn lib os p)) =
         ctx_calls (tlsconn p) @ conn_calls (tlsconn p)"
proof -
  from assms have ok: "fst (tls_config_ctx os (tlsconn p)) = 0"
      "fst (tls_config_conn os ((tlsconn p)\<lparr>ctx := SSL_CTX_new_r os\<rparr>)) = 0"
    by (simp_all add: connect_attempted_iff)
  have "\<forall>e \<in> set (ctx_calls (tlsconn p) @ conn_calls (tlsconn p)). e \<noteq> Call_BIO_do_connect"
    using no_connect_in_ctx_calls [of "tlsconn p"] no_connect_in_conn_calls [of "tlsconn p"]
    by auto
  then have "takeWhile (\<lambda>e. e \<noteq> Call_BIO_do_connect)
       ((ctx_calls (tlsconn p) @ conn_calls (tlsconn p)) @ Call_BIO_do_connect # rest) =
       ctx_calls (tlsconn p) @ conn_calls (tlsconn p)" for rest
    by (subst takeWhile_append2) simp_all
  then show ?thesis
    by (simp add: before_connect_def setup_tlsconn_connect [OF ok])
qed

lemma tls_cleanup_events:
  "e \<in> set (tls_cleanup t) \<Longrightarrow> (\<exists>h. e = Call_BIO_free_all h) \<or> (\<exists>h. e = Call_SSL_CTX_free h)"
  by (auto simp add: tls_cleanup_def split: option.splits)

lemma tls_get_verify_error_events:
  "e \<in> set (tls_get_verify_error os t) \<Longrightarrow> e = Call_BIO_get_ssl \<or> e = Call_SSL_get_verify_result"
  by (auto simp add: tls_get_verify_error_def split: option.splits)

lemma setup_tlsconn_calls_cases:
  assumes "e \<in> set (calls (setup_tlsconn lib os p))"
  shows "e \<in> set (ctx_calls (tlsconn p)) \<or> e \<in> set (conn_calls (tlsconn p)) \<or>
         e = Call_BIO_do_connect \<or> e = Call_BIO_get_ssl \<or> e = Call_SSL_get_verify_result \<or>
         e = Call_cleanup \<or> (\<exists>h. e = Call_BIO_free_all h) \<or> (\<exists>h. e = Call_SSL_CTX_free h)"
proof (cases "fst (tls_config_ctx os (tlsconn p)) = 0")
  case False
  have "set (snd (snd (tls_config_ctx os (tlsconn p)))) \<subseteq> set (ctx_calls (tlsconn p))"
    by (rule set_mono_prefix [OF tls_config_ctx_prefix])
  with assms False tls_cleanup_events [of e] show ?thesis
    by (auto simp add: setup_tlsconn_ctx_fails)
next
  case True
  show ?thesis
  proof (cases "fst (tls_config_conn os ((tlsconn p)\<lparr>ctx := SSL_CTX_new_r os\<rparr>)) = 0")
    case False
    have "set (snd (snd (tls_config_conn os ((tlsconn p)\<lparr>ctx := SSL_CTX_new_r os\<rparr>))))
        \<subseteq> set (conn_calls ((tlsconn p)\<lparr>ctx := SSL_CTX_new_r os\<rparr>))"
      by (rule set_mono_prefix [OF tls_config_conn_prefix])
    moreover have "conn_calls ((tlsconn p)\<lparr>ctx := SSL_CTX_new_r os\<rparr>) = conn_calls (tlsconn p)"
      by (simp add: conn_calls_def)
    ultimately show ?thesis
      using assms True False tls_cleanup_events [of e]
      by (auto simp add: setup_tlsconn_conn_fails)
  next
    case c: True
    from assms tls_cleanup_events [of e] tls_get_verify_error_events [of e] show ?thesis
      by (auto simp add: setup_tlsconn_connect [OF True c] split: if_splits)
  qed
qed

subsection \<open>Integer conversions in the relay loop\<close>

lemma sint_of_nat_64:
  assumes "n < 2 ^ 63"
  shows "sint (word_of_nat n :: 64 word) = int n"
proof -
  have "signed_take_bit 63 (int n) = int n"
    using assms by (intro signed_take_bit_int_eq_self) (simp_all add: order_trans [of _ 0])
  then show ?thesis
    by (simp add: signed_of_nat)
qed

lemma sint_scast_32_64: "sint (scast (w :: 32 word) :: 64 word) = sint w"
  by (rule sint_up_scast) (simp add: is_up)

lemma scast_eq_len_iff:
  fixes bw :: "32 word"
  assumes "n < 2 ^ 63"
  shows "(scast bw :: 64 word) = word_of_nat n \<longleftrightarrow> sint bw = int n"
proof
  assume "(scast bw :: 64 word) = word_of_nat n"
  then have "sint (scast bw :: 64 word) = sint (word_of_nat n :: 64 word)" by simp
  then show "sint bw = int n"
    by (simp add: sint_scast_32_64 sint_of_nat_64 [OF assms])
next
  assume "sint bw = int n"
  then have "sint (scast bw :: 64 word) = sint (word_of_nat n :: 64 word)"
    by (simp add: sint_scast_32_64 sint_of_nat_64 [OF assms])
  then show "(scast bw :: 64 word) = word_of_nat n"
    by (rule signed_word_eqI)
qed

lemma ucast_of_nat_64_32: "(ucast (word_of_nat n :: 64 word) :: 32 word) = word_of_nat n"
  by transfer (simp add: take_bit_of_nat min_def)

subsection \<open>The relay loop\<close>

lemma relay_inbound_recv:
  assumes "ecdh_recv_decrypt lib (ecdhconn p) (socket_in r) = Inr (e, msg)"
  shows "relay_inbound lib r p =
     (if (scast (BIO_write_r r) :: 64 word) \<noteq> word_of_nat (length msg)
      then (Exit EXIT_FAILURE, proxy_init lib p,
            [Call_ecdh_recv_decrypt, Call_BIO_write msg (word_of_nat (length msg)), Call_cleanup] @
            tls_cleanup (tlsconn p))
      else (Return (), p\<lparr>ecdhconn := e\<rparr>,
            [Call_ecdh_recv_decrypt, Call_BIO_write msg (word_of_nat (length msg)),
             Call_kmyth_clear_and_free msg]))"
  using assms
  by (simp add: relay_inbound_def on_failure_def proxy_error_eq [of lib _ p] ucast_of_nat_64_32)

lemma relay_inbound_exit:
  assumes "ecdh_recv_decrypt lib (ecdhconn p) (socket_in r) = Inl status"
  shows "relay_inbound lib r p = (Exit status, p, [Call_ecdh_recv_decrypt])"
  using assms by (simp add: relay_inbound_def)

lemma relay_outbound_closed:
  "BIO_read_r r = 0 \<Longrightarrow>
   relay_outbound lib M r buf p = (Return (Break, buf), p, [Call_BIO_read M])"
  by (simp add: relay_outbound_def)

lemma relay_outbound_error:
  assumes "sint (BIO_read_r r) < 0"
  shows "relay_outbound lib M r buf p =
     (Exit EXIT_FAILURE, proxy_init lib p, Call_BIO_read M # Call_cleanup # tls_cleanup (tlsconn p))"
proof -
  from assms have "BIO_read_r r \<noteq> 0" by auto
  with assms show ?thesis
    by (simp add: relay_outbound_def Let_def proxy_error_eq [of lib _ p])
qed

lemma take_store_at_start:
  "length d = n \<Longrightarrow> n \<le> length buf \<Longrightarrow> take n (store_at_start buf d) = d"
  by (simp add: store_at_start_def)

lemma relay_outbound_data:
  assumes "0 < sint (BIO_read_r r)"
  shows "relay_outbound lib M r buf p =
     (let buf' = store_at_start buf (take (nat (sint (BIO_read_r r))) (BIO_read_data r));
          msg = take (nat (sint (BIO_read_r r))) buf'
      in case ecdh_encrypt_send lib (ecdhconn p) msg of
           Inl status \<Rightarrow> (Exit status, p, [Call_BIO_read M, Call_ecdh_encrypt_send msg])
         | Inr e \<Rightarrow> (Return (Continue, buf'), p\<lparr>ecdhconn := e\<rparr>,
                     [Call_BIO_read M, Call_ecdh_encrypt_send msg]))"
proof -
  from assms have "BIO_read_r r \<noteq> 0" by auto
  with assms show ?thesis
    by (simp add: relay_outbound_def Let_def)
qed


lemma length_store_at_start: "length (store_at_start buf d) = length buf"
  by (simp add: store_at_start_def)

lemma proxy_iter_inbound_stops:
  assumes "inbound_part lib r p = (res, p1, es1)" and "res \<noteq> Return ()"
  shows "proxy_iter lib M r buf p =
      ((case res of Exit s \<Rightarrow> Exit s | _ \<Rightarrow> Blocked), p1, Call_poll # es1)"
  using assms
  by (cases res) (simp_all add: proxy_iter_def inbound_part_def)

lemma proxy_iter_outbound:
  assumes "inbound_part lib r p = (Return (), p1, es1)"
  shows "proxy_iter lib M r buf p =
     (if revents1 r AND POLLIN \<noteq> 0 then
        (case relay_outbound lib M r buf p1 of (res, p2, es2) \<Rightarrow> (res, p2, Call_poll # es1 @ es2))
      else (Return (Continue, buf), p1, Call_poll # es1))"
  using assms
  by (simp add: proxy_iter_def inbound_part_def split: prod.splits)

lemma inbound_part_tlsconn:
  assumes "inbound_part lib r p = (Return (), p1, es1)"
  shows "tlsconn p1 = tlsconn p"
proof (cases "revents0 r AND POLLIN \<noteq> 0")
  case False
  with assms show ?thesis by (simp add: inbound_part_def)
next
  case True
  show ?thesis
  proof (cases "ecdh_recv_decrypt lib (ecdhconn p) (socket_in r)")
    case (Inl s)
    with True assms show ?thesis
      by (simp add: inbound_part_def relay_inbound_exit)
  next
    case (Inr em)
    then obtain e msg where "ecdh_recv_decrypt lib (ecdhconn p) (socket_in r) = Inr (e, msg)"
      by (cases em) simp
    with True assms show ?thesis
      by (auto simp add: inbound_part_def relay_inbound_recv split: if_splits)
  qed
qed

text \<open>
  Claim C4.  In an iteration of the relay loop in which the ECDH socket is readable and
  \<^verbatim>\<open>ecdh_recv_decrypt\<close> hands back a message that fits the \<^verbatim>\<open>int\<close> length of
  \<^verbatim>\<open>BIO_write\<close>, the proxy calls \<^verbatim>\<open>BIO_write\<close> on the whole message right after
  decrypting it.  If \<^verbatim>\<open>BIO_write\<close> reports fewer bytes than the message has, the session
  ends there: the proxy is torn down and the process exits with \<^verbatim>\<open>EXIT_FAILURE\<close>.  The
  calls of that iteration are exactly the ones listed, so the write is neither repeated
  nor followed by any further relaying.
\<close>

theorem inbound_short_write_fatal:
  assumes readable: "revents0 r AND POLLIN \<noteq> 0"
    and recv: "ecdh_recv_decrypt lib (ecdhconn p) (socket_in r) = Inr (e, msg)"
    and len: "length msg \<le> 2 ^ 31 - 1"
  shows "prefix [Call_poll, Call_ecdh_recv_decrypt, Call_BIO_write msg (word_of_nat (length msg))]
           (calls (proxy_loop lib M (r # rs) buf p))
       \<and> sint (word_of_nat (length msg) :: 32 word) = int (length msg)
       \<and> (sint (BIO_write_r r) < int (length msg) \<longrightarrow>
            proxy_loop lib M (r # rs) buf p =
              (Exit EXIT_FAILURE, proxy_init lib p,
               [Call_poll, Call_ecdh_recv_decrypt,
                Call_BIO_write msg (word_of_nat (length msg)), Call_cleanup] @
               tls_cleanup (tlsconn p)))"
proof -
  from len have n63: "length msg < 2 ^ 63" by simp
  let ?w = "[Call_ecdh_recv_decrypt, Call_BIO_write msg (word_of_nat (length msg))]"
  have inb: "inbound_part lib r p = relay_inbound lib r p"
    using readable by (simp add: inbound_part_def)
  have pre: "prefix (Call_poll # ?w) (calls (proxy_loop lib M (r # rs) buf p))"
  proof (cases "(scast (BIO_write_r r) :: 64 word) = word_of_nat (length msg)")
    case False
    then have "inbound_part lib r p =
        (Exit EXIT_FAILURE, proxy_init lib p, ?w @ Call_cleanup # tls_cleanup (tlsconn p))"
      by (simp add: inb relay_inbound_recv [OF recv])
    from proxy_iter_inbound_stops [OF this] show ?thesis
      by simp
  next
    case True
    then have ib: "inbound_part lib r p =
        (Return (), p\<lparr>ecdhconn := e\<rparr>, ?w @ [Call_kmyth_clear_and_free msg])"
      by (simp add: inb relay_inbound_recv [OF recv])
    show ?thesis
      by (simp add: proxy_iter_outbound [OF ib] split: prod.splits outcome.splits loop_ctl.splits)
  qed
  have sz: "sint (word_of_nat (length msg) :: 32 word) = int (length msg)"
  proof -
    have "signed_take_bit 31 (int (length msg)) = int (length msg)"
      using len by (intro signed_take_bit_int_eq_self) (simp_all add: order_trans [of _ 0])
    then show ?thesis by (simp add: signed_of_nat)
  qed
  have short: "proxy_loop lib M (r # rs) buf p =
              (Exit EXIT_FAILURE, proxy_init lib p,
               [Call_poll, Call_ecdh_recv_decrypt,
                Call_BIO_write msg (word_of_nat (length msg)), Call_cleanup] @
               tls_cleanup (tlsconn p))"
    if "sint (BIO_write_r r) < int (length msg)"
  proof -
    from that have "(scast (BIO_write_r r) :: 64 word) \<noteq> word_of_nat (length msg)"
      by (simp add: scast_eq_len_iff [OF n63])
    then have "inbound_part lib r p =
        (Exit EXIT_FAILURE, proxy_init lib p, ?w @ Call_cleanup # tls_cleanup (tlsconn p))"
      by (simp add: inb relay_inbound_recv [OF recv])
    from proxy_iter_inbound_stops [OF this] show ?thesis
      by simp
  qed
  from pre sz short show ?thesis by blast
qed


text \<open>The five-byte message with a write of three bytes.\<close>

theorem inbound_short_write_fatal_witness:
  "revents0 (inbound_round 3) AND POLLIN \<noteq> 0
   \<and> ecdh_recv_decrypt loopback_lib (ecdhconn connected_proxy) (socket_in (inbound_round 3)) =
       Inr (ecdhconn connected_proxy, hello)
   \<and> length hello \<le> 2 ^ 31 - 1
   \<and> sint (BIO_write_r (inbound_round 3)) < int (length hello)
   \<and> proxy_loop loopback_lib 16 [inbound_round 3] (replicate 16 0) connected_proxy =
       (Exit EXIT_FAILURE, proxy_init loopback_lib connected_proxy,
        [Call_poll, Call_ecdh_recv_decrypt, Call_BIO_write hello 5, Call_cleanup,
         Call_BIO_free_all 2, Call_SSL_CTX_free 1])"
proof -
  have h1: "revents0 (inbound_round 3) AND POLLIN \<noteq> 0"
    by (simp add: inbound_round_def POLLIN_def)
  have h2: "ecdh_recv_decrypt loopback_lib (ecdhconn connected_proxy) (socket_in (inbound_round 3)) =
       Inr (ecdhconn connected_proxy, hello)"
    by (simp add: loopback_lib_def inbound_round_def)
  have h3: "length hello \<le> 2 ^ 31 - 1"
    by (simp add: hello_def)
  have h4: "sint (BIO_write_r (inbound_round 3)) < int (length hello)"
    by (simp add: inbound_round_def hello_def)
  have t: "tls_cleanup (tlsconn connected_proxy) = [Call_BIO_free_all 2, Call_SSL_CTX_free 1]"
    by (simp add: tls_cleanup_def connected_proxy_def sample_proxy_def)
  have n: "(word_of_nat (length hello) :: 32 word) = 5"
    by (simp add: hello_def)
  from inbound_short_write_fatal [where M = 16 and rs = "[]" and buf = "replicate 16 0", OF h1 h2 h3] h1 h2 h3 h4 show ?thesis
    by (simp add: t n)
qed

lemma proxy_iter_length:
  assumes "result (proxy_iter lib M r buf p) = Return (c, buf')"
  shows "length buf' = length buf"
proof (cases "inbound_part lib r p")
  case (fields res p1 es1)
  show ?thesis
  proof (cases "res = Return ()")
    case False
    from proxy_iter_inbound_stops [OF fields False] assms show ?thesis
      by (cases res) simp_all
  next
    case True
    with fields have ib: "inbound_part lib r p = (Return (), p1, es1)" by simp
    show ?thesis
    proof (cases "revents1 r AND POLLIN \<noteq> 0")
      case False
      with proxy_iter_outbound [OF ib] assms show ?thesis by simp
    next
      case rd: True
      consider "BIO_read_r r = 0" | "sint (BIO_read_r r) < 0" | "0 < sint (BIO_read_r r)"
        by (metis linorder_neqE_linordered_idom signed_eq_0_iff)
      then show ?thesis
      proof cases
        case 1
        with proxy_iter_outbound [OF ib] rd assms show ?thesis
          by (simp add: relay_outbound_closed)
      next
        case 2
        with proxy_iter_outbound [OF ib] rd assms show ?thesis
          by (simp add: relay_outbound_error)
      next
        case 3
        with proxy_iter_outbound [OF ib] rd assms show ?thesis
          by (auto simp add: relay_outbound_data Let_def length_store_at_start split: sum.splits)
      qed
    qed
  qed
qed

text \<open>
  Claim C3.  In an iteration of the relay loop in which the TLS descriptor is readable
  and which gets as far as the outbound half (the inbound half, if it ran, returned),
  the proxy calls \<^verbatim>\<open>BIO_read\<close> once, asking for \<^verbatim>\<open>ECDH_MAX_MSG_SIZE\<close> bytes.  A result of
  zero ends the loop and \<^verbatim>\<open>proxy_start\<close> returns; a negative result tears the proxy down
  and ends the process with \<^verbatim>\<open>EXIT_FAILURE\<close>; a positive result \<open>n\<close> passes the first
  \<open>n\<close> bytes of the buffer, which are the bytes just read, to \<^verbatim>\<open>ecdh_encrypt_send\<close>.  What
  is passed on is never longer than the buffer, which \<^verbatim>\<open>proxy_start\<close> creates with
  \<^verbatim>\<open>ECDH_MAX_MSG_SIZE\<close> bytes and which keeps its size from one iteration to the next.
\<close>

theorem outbound_read_dispatch:
  assumes readable: "revents1 r AND POLLIN \<noteq> 0"
    and reached: "inbound_part lib r p = (Return (), p1, es1)"
  shows "prefix (Call_poll # es1 @ [Call_BIO_read M]) (calls (proxy_loop lib M (r # rs) buf p))
     \<and> (BIO_read_r r = 0 \<longrightarrow>
          proxy_loop lib M (r # rs) buf p = (Return (), p1, Call_poll # es1 @ [Call_BIO_read M]))
     \<and> (sint (BIO_read_r r) < 0 \<longrightarrow>
          proxy_loop lib M (r # rs) buf p =
            (Exit EXIT_FAILURE, proxy_init lib p,
             Call_poll # es1 @ [Call_BIO_read M, Call_cleanup] @ tls_cleanup (tlsconn p)))
     \<and> (0 < sint (BIO_read_r r) \<longrightarrow>
          (let n = nat (sint (BIO_read_r r));
               msg = take n (store_at_start buf (take n (BIO_read_data r)))
           in length msg \<le> length buf
              \<and> (length (BIO_read_data r) = n \<and> n \<le> length buf \<longrightarrow> msg = BIO_read_data r)
              \<and> prefix (Call_poll # es1 @ [Call_BIO_read M, Call_ecdh_encrypt_send msg])
                   (calls (proxy_loop lib M (r # rs) buf p))))
     \<and> (\<forall>c buf'. result (proxy_iter lib M r buf p) = Return (c, buf') \<longrightarrow>
          length buf' = length buf)"
proof -
  note it = proxy_iter_outbound [OF reached, of M buf]
  have closed: "proxy_loop lib M (r # rs) buf p = (Return (), p1, Call_poll # es1 @ [Call_BIO_read M])"
    if "BIO_read_r r = 0"
    using that readable by (simp add: it relay_outbound_closed)
  have error: "proxy_loop lib M (r # rs) buf p =
            (Exit EXIT_FAILURE, proxy_init lib p,
             Call_poll # es1 @ [Call_BIO_read M, Call_cleanup] @ tls_cleanup (tlsconn p))"
    if "sint (BIO_read_r r) < 0"
    using that readable
    by (simp add: it relay_outbound_error inbound_part_tlsconn [OF reached]
          proxy_cleanup_state [of lib p1 p, symmetric] proxy_cleanup_state [of lib p1 p1])
  define n where "n = nat (sint (BIO_read_r r))"
  define msg where "msg = take n (store_at_start buf (take n (BIO_read_data r)))"
  have data: "prefix (Call_poll # es1 @ [Call_BIO_read M, Call_ecdh_encrypt_send msg])
                   (calls (proxy_loop lib M (r # rs) buf p))"
    if "0 < sint (BIO_read_r r)"
    using that readable
    by (simp add: it relay_outbound_data Let_def n_def msg_def
          split: sum.splits prod.splits outcome.splits loop_ctl.splits)
  have len: "length msg \<le> length buf"
    by (simp add: msg_def length_store_at_start)
  have same: "msg = BIO_read_data r" if "length (BIO_read_data r) = n" "n \<le> length buf"
    using that by (simp add: msg_def take_store_at_start)
  have first: "prefix (Call_poll # es1 @ [Call_BIO_read M]) (calls (proxy_loop lib M (r # rs) buf p))"
  proof -
    consider "BIO_read_r r = 0" | "sint (BIO_read_r r) < 0" | "0 < sint (BIO_read_r r)"
      by (metis linorder_neqE_linordered_idom signed_eq_0_iff)
    then show ?thesis
    proof cases
      case 1 show ?thesis unfolding closed [OF 1] by simp
    next
      case 2 show ?thesis unfolding error [OF 2] by simp
    next
      case 3
      have "prefix (Call_poll # es1 @ [Call_BIO_read M])
              (Call_poll # es1 @ [Call_BIO_read M, Call_ecdh_encrypt_send msg])"
        by simp
      then show ?thesis
        using data [OF 3] by (rule prefix_order.trans)
    qed
  qed
  from first closed error data len same proxy_iter_length [of lib M r buf p]
  show ?thesis
    unfolding Let_def n_def [symmetric] msg_def [symmetric] by blast
qed


text \<open>A read of zero bytes, a failed read, and a read of the five-byte message.\<close>

theorem outbound_read_dispatch_witness:
  "revents1 (outbound_round 0 []) AND POLLIN \<noteq> 0
   \<and> inbound_part loopback_lib (outbound_round 0 []) connected_proxy = (Return (), connected_proxy, [])
   \<and> proxy_loop loopback_lib 16 [outbound_round 0 []] (replicate 16 0) connected_proxy =
       (Return (), connected_proxy, [Call_poll, Call_BIO_read 16])
   \<and> revents1 (outbound_round (- 1) []) AND POLLIN \<noteq> 0
   \<and> inbound_part loopback_lib (outbound_round (- 1) []) connected_proxy =
       (Return (), connected_proxy, [])
   \<and> sint (BIO_read_r (outbound_round (- 1) [])) < 0
   \<and> proxy_loop loopback_lib 16 [outbound_round (- 1) []] (replicate 16 0) connected_proxy =
       (Exit EXIT_FAILURE, proxy_init loopback_lib connected_proxy,
        [Call_poll, Call_BIO_read 16, Call_cleanup, Call_BIO_free_all 2, Call_SSL_CTX_free 1])
   \<and> revents1 (outbound_round 5 hello) AND POLLIN \<noteq> 0
   \<and> inbound_part loopback_lib (outbound_round 5 hello) connected_proxy =
       (Return (), connected_proxy, [])
   \<and> 0 < sint (BIO_read_r (outbound_round 5 hello))
   \<and> prefix [Call_poll, Call_BIO_read 16, Call_ecdh_encrypt_send hello]
       (calls (proxy_loop loopback_lib 16 [outbound_round 5 hello] (replicate 16 0) connected_proxy))
   \<and> result (proxy_iter loopback_lib 16 (outbound_round 5 hello) (replicate 16 0)
         connected_proxy) = Return (Continue, hello @ replicate 11 0)
   \<and> length (hello @ replicate 11 0) = length (replicate 16 (0 :: byte))"
proof -
  have r: "revents1 (outbound_round n bs) AND POLLIN \<noteq> 0" for n bs
    by (simp add: outbound_round_def POLLIN_def)
  have i: "inbound_part loopback_lib (outbound_round n bs) connected_proxy =
       (Return (), connected_proxy, [])" for n bs
    by (simp add: inbound_part_def outbound_round_def)
  have t: "tls_cleanup (tlsconn connected_proxy) = [Call_BIO_free_all 2, Call_SSL_CTX_free 1]"
    by (simp add: tls_cleanup_def connected_proxy_def sample_proxy_def)
  have z: "BIO_read_r (outbound_round 0 []) = 0"
    by (simp add: outbound_round_def)
  have m: "sint (BIO_read_r (outbound_round (- 1) [])) < 0"
    by (simp add: outbound_round_def)
  have d: "0 < sint (BIO_read_r (outbound_round 5 hello))"
     "nat (sint (BIO_read_r (outbound_round 5 hello))) = 5"
     "BIO_read_data (outbound_round 5 hello) = hello" "length hello = 5"
    by (simp_all add: outbound_round_def hello_def)
  from outbound_read_dispatch [where M = 16 and rs = "[]" and buf = "replicate 16 0", OF r [of 0 "[]"] i [of 0 "[]"]] z
  have a: "proxy_loop loopback_lib 16 [outbound_round 0 []] (replicate 16 0) connected_proxy =
       (Return (), connected_proxy, [Call_poll, Call_BIO_read 16])"
    by simp
  from outbound_read_dispatch [where M = 16 and rs = "[]" and buf = "replicate 16 0", OF r [of "- 1" "[]"] i [of "- 1" "[]"]] m
  have b: "proxy_loop loopback_lib 16 [outbound_round (- 1) []] (replicate 16 0) connected_proxy =
       (Exit EXIT_FAILURE, proxy_init loopback_lib connected_proxy,
        [Call_poll, Call_BIO_read 16, Call_cleanup, Call_BIO_free_all 2, Call_SSL_CTX_free 1])"
    by (simp add: t)
  from outbound_read_dispatch [where M = 16 and rs = "[]" and buf = "replicate 16 0", OF r [of 5 hello] i [of 5 hello]] d
  have c: "prefix [Call_poll, Call_BIO_read 16, Call_ecdh_encrypt_send hello]
       (calls (proxy_loop loopback_lib 16 [outbound_round 5 hello] (replicate 16 0) connected_proxy))"
    by (auto simp add: Let_def simp del: proxy_loop.simps)
  have e: "result (proxy_iter loopback_lib 16 (outbound_round 5 hello) (replicate 16 0)
         connected_proxy) = Return (Continue, hello @ replicate 11 0)"
    by code_simp
  from outbound_read_dispatch [where M = 16 and rs = "[]" and buf = "replicate 16 0",
      OF r [of 5 hello] i [of 5 hello]] e
  have f: "length (hello @ replicate 11 0) = length (replicate 16 (0 :: byte))"
    by blast
  from a b c r i m d(1) e f show ?thesis by blast
qed

subsection \<open>The handshake and the TLS context\<close>








lemma ctx_calls_head:
  "prefix [Call_TLS_client_method, Call_SSL_CTX_new,
           Call_SSL_CTX_set_min_proto_version TLS1_2_VERSION,
           Call_SSL_CTX_set_verify SSL_VERIFY_PEER, Call_SSL_CTX_set_verify_depth 5]
     (ctx_calls t @ rest)"
  by (simp add: ctx_calls_def)

lemma ctx_config_calls_in_conn_calls:
  "Call_SSL_CTX_set_min_proto_version v \<notin> set (conn_calls t)"
  "Call_SSL_CTX_set_verify m \<notin> set (conn_calls t)"
  "Call_SSL_CTX_set_verify_depth d \<notin> set (conn_calls t)"
  by (simp_all add: conn_calls_def)

lemma ctx_config_calls_in_ctx_calls:
  "Call_SSL_CTX_set_min_proto_version v \<in> set (ctx_calls t) \<Longrightarrow> v = TLS1_2_VERSION"
  "Call_SSL_CTX_set_verify m \<in> set (ctx_calls t) \<Longrightarrow> m = SSL_VERIFY_PEER"
  "Call_SSL_CTX_set_verify_depth d \<in> set (ctx_calls t) \<Longrightarrow> d = 5"
  by (auto simp add: ctx_calls_def split: option.splits)

lemma count_list_prefix: "prefix xs ys \<Longrightarrow> count_list xs a \<le> count_list ys a"
  by (auto simp add: prefix_def)

lemma count_new_parts:
  "count_list (ctx_calls t) Call_SSL_CTX_new = 1"
  "count_list (conn_calls t) Call_SSL_CTX_new = 0"
  "count_list (tls_cleanup t) Call_SSL_CTX_new = 0"
  "count_list (tls_get_verify_error os t) Call_SSL_CTX_new = 0"
  by (simp_all add: ctx_calls_def conn_calls_def tls_cleanup_def tls_get_verify_error_def
        split: option.splits)

lemma count_SSL_CTX_new:
  "count_list (calls (setup_tlsconn lib os p)) Call_SSL_CTX_new \<le> 1"
proof (cases "fst (tls_config_ctx os (tlsconn p)) = 0")
  case False
  from count_list_prefix [OF tls_config_ctx_prefix, of os "tlsconn p" Call_SSL_CTX_new]
  show ?thesis
    by (simp add: setup_tlsconn_ctx_fails [OF False] count_new_parts)
next
  case True
  show ?thesis
  proof (cases "fst (tls_config_conn os ((tlsconn p)\<lparr>ctx := SSL_CTX_new_r os\<rparr>)) = 0")
    case False
    from count_list_prefix [OF tls_config_conn_prefix, of os
        "(tlsconn p)\<lparr>ctx := SSL_CTX_new_r os\<rparr>" Call_SSL_CTX_new]
    show ?thesis
      by (simp add: setup_tlsconn_conn_fails [OF True False] count_new_parts)
  next
    case c: True
    show ?thesis
      by (simp add: setup_tlsconn_connect [OF True c] count_new_parts)
  qed
qed

text \<open>
  Claim C6.  Whenever \<^verbatim>\<open>setup_tlsconn\<close> attempts the connection, the context was created,
  \<^verbatim>\<open>SSL_CTX_set_min_proto_version(ctx, TLS1_2_VERSION)\<close> succeeded on it, and
  \<^verbatim>\<open>SSL_CTX_set_verify(ctx, SSL_VERIFY_PEER, NULL)\<close> and \<^verbatim>\<open>SSL_CTX_set_verify_depth(ctx, 5)\<close>
  were called, all before \<^verbatim>\<open>BIO_do_connect\<close>; the calls before \<^verbatim>\<open>BIO_do_connect\<close> are
  exactly those of a successful \<^verbatim>\<open>tls_config_ctx\<close> and \<^verbatim>\<open>tls_config_conn\<close>.  If
  \<^verbatim>\<open>tls_config_ctx\<close> fails, as it does when setting the minimum version fails, the
  connection is not attempted and the process ends with \<^verbatim>\<open>EXIT_FAILURE\<close>.  In no run is
  the minimum version set to anything but \<^verbatim>\<open>TLS1_2_VERSION\<close>, the verification mode to
  anything but \<^verbatim>\<open>SSL_VERIFY_PEER\<close> or the depth to anything but 5, and at most one context
  is created, so nothing undoes these settings later.
\<close>

theorem tls_context_configuration:
  "(Call_BIO_do_connect \<in> set (calls (setup_tlsconn lib os p)) \<longrightarrow>
      SSL_CTX_new_r os \<noteq> None \<and> SSL_CTX_set_min_proto_version_r os = 1 \<and>
      prefix [Call_TLS_client_method, Call_SSL_CTX_new,
              Call_SSL_CTX_set_min_proto_version TLS1_2_VERSION,
              Call_SSL_CTX_set_verify SSL_VERIFY_PEER, Call_SSL_CTX_set_verify_depth 5]
        (before_connect (calls (setup_tlsconn lib os p))) \<and>
      before_connect (calls (setup_tlsconn lib os p)) =
        ctx_calls (tlsconn p) @ conn_calls (tlsconn p))
   \<and> (fst (tls_config_ctx os (tlsconn p)) \<noteq> 0 \<longrightarrow>
        Call_BIO_do_connect \<notin> set (calls (setup_tlsconn lib os p)) \<and>
        result (setup_tlsconn lib os p) = Exit EXIT_FAILURE)
   \<and> (SSL_CTX_set_min_proto_version_r os \<noteq> 1 \<longrightarrow>
        fst (tls_config_ctx os (tlsconn p)) \<noteq> 0)
   \<and> (\<forall>v. Call_SSL_CTX_set_min_proto_version v \<in> set (calls (setup_tlsconn lib os p)) \<longrightarrow>
          v = TLS1_2_VERSION)
   \<and> (\<forall>m. Call_SSL_CTX_set_verify m \<in> set (calls (setup_tlsconn lib os p)) \<longrightarrow>
          m = SSL_VERIFY_PEER)
   \<and> (\<forall>d. Call_SSL_CTX_set_verify_depth d \<in> set (calls (setup_tlsconn lib os p)) \<longrightarrow>
          d = 5)
   \<and> count_list (calls (setup_tlsconn lib os p)) Call_SSL_CTX_new \<le> 1"
proof (intro conjI impI allI)
  assume c: "Call_BIO_do_connect \<in> set (calls (setup_tlsconn lib os p))"
  then have ok: "fst (tls_config_ctx os (tlsconn p)) = 0"
    by (simp add: connect_attempted_iff)
  then show "SSL_CTX_new_r os \<noteq> None" and "SSL_CTX_set_min_proto_version_r os = 1"
    by (simp_all add: tls_config_ctx_ok_iff)
  show "prefix [Call_TLS_client_method, Call_SSL_CTX_new,
              Call_SSL_CTX_set_min_proto_version TLS1_2_VERSION,
              Call_SSL_CTX_set_verify SSL_VERIFY_PEER, Call_SSL_CTX_set_verify_depth 5]
        (before_connect (calls (setup_tlsconn lib os p)))"
    unfolding before_connect_setup [OF c] by (rule ctx_calls_head)
  show "before_connect (calls (setup_tlsconn lib os p)) =
        ctx_calls (tlsconn p) @ conn_calls (tlsconn p)"
    by (rule before_connect_setup [OF c])
next
  assume f: "fst (tls_config_ctx os (tlsconn p)) \<noteq> 0"
  then show "Call_BIO_do_connect \<notin> set (calls (setup_tlsconn lib os p))"
    by (simp add: connect_attempted_iff)
  from f show "result (setup_tlsconn lib os p) = Exit EXIT_FAILURE"
    by (simp add: setup_tlsconn_ctx_fails)
next
  assume "SSL_CTX_set_min_proto_version_r os \<noteq> 1"
  then show "fst (tls_config_ctx os (tlsconn p)) \<noteq> 0"
    by (simp add: tls_config_ctx_ok_iff)
next
  fix v
  assume "Call_SSL_CTX_set_min_proto_version v \<in> set (calls (setup_tlsconn lib os p))"
  from setup_tlsconn_calls_cases [OF this]
    ctx_config_calls_in_conn_calls(1) [of v "tlsconn p"]
    ctx_config_calls_in_ctx_calls(1) [of v "tlsconn p"]
  show "v = TLS1_2_VERSION" by auto
next
  fix m
  assume "Call_SSL_CTX_set_verify m \<in> set (calls (setup_tlsconn lib os p))"
  from setup_tlsconn_calls_cases [OF this]
    ctx_config_calls_in_conn_calls(2) [of m "tlsconn p"]
    ctx_config_calls_in_ctx_calls(2) [of m "tlsconn p"]
  show "m = SSL_VERIFY_PEER" by auto
next
  fix d
  assume "Call_SSL_CTX_set_verify_depth d \<in> set (calls (setup_tlsconn lib os p))"
  from setup_tlsconn_calls_cases [OF this]
    ctx_config_calls_in_conn_calls(3) [of d "tlsconn p"]
    ctx_config_calls_in_ctx_calls(3) [of d "tlsconn p"]
  show "d = 5" by auto
next
  show "count_list (calls (setup_tlsconn lib os p)) Call_SSL_CTX_new \<le> 1"
    by (rule count_SSL_CTX_new)
qed

lemma sample_connects:
  "Call_BIO_do_connect \<in> set (calls (setup_tlsconn loopback_lib openssl_ok sample_proxy))"
  by (simp add: connect_attempted_iff tls_config_ctx_ok_iff tls_config_conn_ok_iff
        openssl_ok_def sample_proxy_def)

text \<open>A setup in which everything succeeds, and one in which the minimum version is refused.\<close>

theorem tls_context_configuration_witness:
  "Call_BIO_do_connect \<in> set (calls (setup_tlsconn loopback_lib openssl_ok sample_proxy))
   \<and> prefix [Call_TLS_client_method, Call_SSL_CTX_new,
              Call_SSL_CTX_set_min_proto_version 0x0303,
              Call_SSL_CTX_set_verify 1, Call_SSL_CTX_set_verify_depth 5]
        (before_connect (calls (setup_tlsconn loopback_lib openssl_ok sample_proxy)))
   \<and> Call_SSL_CTX_set_min_proto_version TLS1_2_VERSION
        \<in> set (calls (setup_tlsconn loopback_lib openssl_ok sample_proxy))
   \<and> Call_SSL_CTX_set_verify SSL_VERIFY_PEER
        \<in> set (calls (setup_tlsconn loopback_lib openssl_ok sample_proxy))
   \<and> Call_SSL_CTX_set_verify_depth 5
        \<in> set (calls (setup_tlsconn loopback_lib openssl_ok sample_proxy))
   \<and> SSL_CTX_set_min_proto_version_r (openssl_ok\<lparr>SSL_CTX_set_min_proto_version_r := 0\<rparr>) \<noteq> 1
   \<and> fst (tls_config_ctx (openssl_ok\<lparr>SSL_CTX_set_min_proto_version_r := 0\<rparr>)
            (tlsconn sample_proxy)) \<noteq> 0
   \<and> Call_BIO_do_connect \<notin> set (calls (setup_tlsconn loopback_lib
          (openssl_ok\<lparr>SSL_CTX_set_min_proto_version_r := 0\<rparr>) sample_proxy))
   \<and> result (setup_tlsconn loopback_lib
          (openssl_ok\<lparr>SSL_CTX_set_min_proto_version_r := 0\<rparr>) sample_proxy) = Exit EXIT_FAILURE"
proof -
  have m: "Call_SSL_CTX_set_min_proto_version TLS1_2_VERSION
        \<in> set (calls (setup_tlsconn loopback_lib openssl_ok sample_proxy))"
    "Call_SSL_CTX_set_verify SSL_VERIFY_PEER
        \<in> set (calls (setup_tlsconn loopback_lib openssl_ok sample_proxy))"
    "Call_SSL_CTX_set_verify_depth 5
        \<in> set (calls (setup_tlsconn loopback_lib openssl_ok sample_proxy))"
    by code_simp+
  note t1 = tls_context_configuration [of loopback_lib openssl_ok sample_proxy]
  note t2 = tls_context_configuration [of loopback_lib "openssl_ok\<lparr>SSL_CTX_set_min_proto_version_r := 0\<rparr>" sample_proxy]
  from t1 [THEN conjunct1, THEN mp, OF sample_connects, THEN conjunct2, THEN conjunct2,
      THEN conjunct1]
  have a: "prefix [Call_TLS_client_method, Call_SSL_CTX_new,
              Call_SSL_CTX_set_min_proto_version 0x0303,
              Call_SSL_CTX_set_verify 1, Call_SSL_CTX_set_verify_depth 5]
        (before_connect (calls (setup_tlsconn loopback_lib openssl_ok sample_proxy)))"
    by (simp only: TLS1_2_VERSION_def SSL_VERIFY_PEER_def)
  have z: "SSL_CTX_set_min_proto_version_r (openssl_ok\<lparr>SSL_CTX_set_min_proto_version_r := 0\<rparr>) \<noteq> 1"
    by simp
  from t2 [THEN conjunct2, THEN conjunct2, THEN conjunct1] z
  have b: "fst (tls_config_ctx (openssl_ok\<lparr>SSL_CTX_set_min_proto_version_r := 0\<rparr>)
            (tlsconn sample_proxy)) \<noteq> 0"
    by (rule mp)
  from t2 [THEN conjunct2, THEN conjunct1] b
  have c: "Call_BIO_do_connect \<notin> set (calls (setup_tlsconn loopback_lib
          (openssl_ok\<lparr>SSL_CTX_set_min_proto_version_r := 0\<rparr>) sample_proxy)) \<and>
      result (setup_tlsconn loopback_lib
          (openssl_ok\<lparr>SSL_CTX_set_min_proto_version_r := 0\<rparr>) sample_proxy) = Exit EXIT_FAILURE"
    by (rule mp)
  from sample_connects a m z b c show ?thesis
    by (intro conjI) simp_all
qed

lemma conn_calls_tail:
  "ctx_calls t @ conn_calls t =
   (ctx_calls t @ [Call_BIO_new_ssl_connect, Call_BIO_set_conn_hostname (host t),
      Call_BIO_set_conn_port (tls_port t), Call_BIO_get_ssl]) @
   [Call_SSL_set_tlsext_host_name (host t), Call_SSL_set1_host (host t)]"
  by (simp add: conn_calls_def)

lemma host_calls_in_ctx_calls:
  "Call_SSL_set_tlsext_host_name h \<notin> set (ctx_calls t)"
  "Call_SSL_set1_host h \<notin> set (ctx_calls t)"
  by (simp_all add: ctx_calls_def split: option.splits)

text \<open>
  Claim C7.  Whenever \<^verbatim>\<open>setup_tlsconn\<close> attempts the connection, the last two calls before
  \<^verbatim>\<open>BIO_do_connect\<close> are \<^verbatim>\<open>SSL_set_tlsext_host_name\<close> and \<^verbatim>\<open>SSL_set1_host\<close>, both with the
  \<^verbatim>\<open>host\<close> field of the configuration and both successful, and no call sets either value
  to anything else.
\<close>

theorem sni_and_verify_host:
  assumes "Call_BIO_do_connect \<in> set (calls (setup_tlsconn lib os p))"
  shows "(\<exists>pre. before_connect (calls (setup_tlsconn lib os p)) =
            pre @ [Call_SSL_set_tlsext_host_name (host (tlsconn p)),
                   Call_SSL_set1_host (host (tlsconn p))])
     \<and> SSL_set_tlsext_host_name_r os = 1 \<and> SSL_set1_host_r os = 1
     \<and> (\<forall>h. Call_SSL_set_tlsext_host_name h \<in> set (calls (setup_tlsconn lib os p)) \<longrightarrow>
             h = host (tlsconn p))
     \<and> (\<forall>h. Call_SSL_set1_host h \<in> set (calls (setup_tlsconn lib os p)) \<longrightarrow>
             h = host (tlsconn p))"
proof -
  from assms have ok: "fst (tls_config_ctx os (tlsconn p)) = 0"
      "fst (tls_config_conn os ((tlsconn p)\<lparr>ctx := SSL_CTX_new_r os\<rparr>)) = 0"
    by (simp_all add: connect_attempted_iff)
  have "\<exists>pre. before_connect (calls (setup_tlsconn lib os p)) =
            pre @ [Call_SSL_set_tlsext_host_name (host (tlsconn p)),
                   Call_SSL_set1_host (host (tlsconn p))]"
    unfolding before_connect_setup [OF assms] conn_calls_tail by (rule exI) (rule refl)
  moreover from ok(2) have "SSL_set_tlsext_host_name_r os = 1" "SSL_set1_host_r os = 1"
    by (simp_all add: tls_config_conn_ok_iff)
  moreover have "h = host (tlsconn p)"
    if "Call_SSL_set_tlsext_host_name h \<in> set (calls (setup_tlsconn lib os p))" for h
    using setup_tlsconn_calls_cases [OF that] host_calls_in_ctx_calls(1) [of h "tlsconn p"]
    by (auto simp add: conn_calls_def)
  moreover have "h = host (tlsconn p)"
    if "Call_SSL_set1_host h \<in> set (calls (setup_tlsconn lib os p))" for h
    using setup_tlsconn_calls_cases [OF that] host_calls_in_ctx_calls(2) [of h "tlsconn p"]
    by (auto simp add: conn_calls_def)
  ultimately show ?thesis by blast
qed

text \<open>The sample proxy connects to \<open>keyserver\<close>.\<close>

theorem sni_and_verify_host_witness:
  "Call_BIO_do_connect \<in> set (calls (setup_tlsconn loopback_lib openssl_ok sample_proxy))
   \<and> (\<exists>pre. before_connect (calls (setup_tlsconn loopback_lib openssl_ok sample_proxy)) =
            pre @ [Call_SSL_set_tlsext_host_name (Some ''keyserver''),
                   Call_SSL_set1_host (Some ''keyserver'')])"
proof -
  have h: "host (tlsconn sample_proxy) = Some ''keyserver''"
    by (simp add: sample_proxy_def)
  note t = sni_and_verify_host [OF sample_connects, THEN conjunct1]
  show ?thesis
    using sample_connects t unfolding h by (rule conjI)
qed

subsection \<open>Client credentials\<close>

text \<open>
  Claim C8 as stated fails.  A configuration with a client key and no client
  certificate is not rejected: with an OpenSSL in which every call succeeds,
  \<^verbatim>\<open>setup_tlsconn\<close> returns 0 and the connection has been attempted.
\<close>

theorem client_key_without_cert_connects:
  "client_key_path (tlsconn key_only_proxy) = Some ''client.key''
   \<and> client_cert_path (tlsconn key_only_proxy) = None
   \<and> result (setup_tlsconn loopback_lib openssl_ok key_only_proxy) = Return 0
   \<and> Call_BIO_do_connect \<in> set (calls (setup_tlsconn loopback_lib openssl_ok key_only_proxy))"
  by code_simp

lemma all_succeed_config:
  assumes "all_succeed os"
  shows "fst (tls_config_ctx os t) = 0" and "fst (tls_config_conn os t') = 0"
    and "BIO_do_connect_r os = 1"
  using assms
  by (simp_all add: all_succeed_def tls_config_ctx_ok_iff tls_config_conn_ok_iff
        split: option.splits)

text \<open>
  Claim C8, amended.  The client key and the client certificate are loaded independently
  of each other.  Whenever the connection is attempted, a key that was supplied has been
  loaded with \<^verbatim>\<open>SSL_CTX_use_PrivateKey_file\<close> and a certificate that was supplied has been
  loaded with \<^verbatim>\<open>SSL_CTX_use_certificate_file\<close>, both successfully and before
  \<^verbatim>\<open>BIO_do_connect\<close>; so when both are supplied, both are in the context.  No combination
  of the two is rejected by the proxy: when the OpenSSL calls succeed, the connection is
  attempted and \<^verbatim>\<open>setup_tlsconn\<close> returns 0.
\<close>

theorem client_credentials_loaded_independently:
  "(Call_BIO_do_connect \<in> set (calls (setup_tlsconn lib os p)) \<longrightarrow>
      (\<forall>k. client_key_path (tlsconn p) = Some k \<longrightarrow>
           Call_SSL_CTX_use_PrivateKey_file k SSL_FILETYPE_PEM
             \<in> set (before_connect (calls (setup_tlsconn lib os p))) \<and>
           SSL_CTX_use_PrivateKey_file_r os = 1)
    \<and> (\<forall>c. client_cert_path (tlsconn p) = Some c \<longrightarrow>
           Call_SSL_CTX_use_certificate_file c SSL_FILETYPE_PEM
             \<in> set (before_connect (calls (setup_tlsconn lib os p))) \<and>
           SSL_CTX_use_certificate_file_r os = 1))
   \<and> (all_succeed os \<longrightarrow>
        Call_BIO_do_connect \<in> set (calls (setup_tlsconn lib os p)) \<and>
        result (setup_tlsconn lib os p) = Return 0)"
proof (intro conjI impI allI)
  fix k
  assume c: "Call_BIO_do_connect \<in> set (calls (setup_tlsconn lib os p))"
    and k: "client_key_path (tlsconn p) = Some k"
  from c have ok: "fst (tls_config_ctx os (tlsconn p)) = 0"
    by (simp add: connect_attempted_iff)
  from k show "Call_SSL_CTX_use_PrivateKey_file k SSL_FILETYPE_PEM
             \<in> set (before_connect (calls (setup_tlsconn lib os p)))"
    by (simp add: before_connect_setup [OF c] ctx_calls_def)
  from ok k show "SSL_CTX_use_PrivateKey_file_r os = 1"
    by (simp add: tls_config_ctx_ok_iff)
next
  fix c
  assume a: "Call_BIO_do_connect \<in> set (calls (setup_tlsconn lib os p))"
    and c: "client_cert_path (tlsconn p) = Some c"
  from a have ok: "fst (tls_config_ctx os (tlsconn p)) = 0"
    by (simp add: connect_attempted_iff)
  from c show "Call_SSL_CTX_use_certificate_file c SSL_FILETYPE_PEM
             \<in> set (before_connect (calls (setup_tlsconn lib os p)))"
    by (simp add: before_connect_setup [OF a] ctx_calls_def)
  from ok c show "SSL_CTX_use_certificate_file_r os = 1"
    by (simp add: tls_config_ctx_ok_iff)
next
  assume s: "all_succeed os"
  note ok = all_succeed_config [OF s]
  show "Call_BIO_do_connect \<in> set (calls (setup_tlsconn lib os p))"
    by (simp add: connect_attempted_iff ok)
  show "result (setup_tlsconn lib os p) = Return 0"
    by (simp add: setup_tlsconn_connect [OF ok(1) ok(2)] ok(3))
qed

lemma all_succeed_openssl_ok: "all_succeed openssl_ok"
  by (simp add: all_succeed_def openssl_ok_def)

text \<open>A proxy with both a client key and a client certificate.\<close>

theorem client_credentials_loaded_independently_witness:
  "all_succeed openssl_ok
   \<and> client_key_path (tlsconn mutual_tls_proxy) = Some ''client.key''
   \<and> client_cert_path (tlsconn mutual_tls_proxy) = Some ''client.crt''
   \<and> Call_BIO_do_connect \<in> set (calls (setup_tlsconn loopback_lib openssl_ok mutual_tls_proxy))
   \<and> Call_SSL_CTX_use_PrivateKey_file ''client.key'' SSL_FILETYPE_PEM
        \<in> set (before_connect (calls (setup_tlsconn loopback_lib openssl_ok mutual_tls_proxy)))
   \<and> Call_SSL_CTX_use_certificate_file ''client.crt'' SSL_FILETYPE_PEM
        \<in> set (before_connect (calls (setup_tlsconn loopback_lib openssl_ok mutual_tls_proxy)))"
proof -
  note t = client_credentials_loaded_independently [of loopback_lib openssl_ok mutual_tls_proxy]
  have k: "client_key_path (tlsconn mutual_tls_proxy) = Some ''client.key''"
    and c: "client_cert_path (tlsconn mutual_tls_proxy) = Some ''client.crt''"
    by (simp_all add: mutual_tls_proxy_def sample_proxy_def)
  from t all_succeed_openssl_ok
  have a: "Call_BIO_do_connect \<in> set (calls (setup_tlsconn loopback_lib openssl_ok mutual_tls_proxy))"
    by blast
  from t a k have "Call_SSL_CTX_use_PrivateKey_file ''client.key'' SSL_FILETYPE_PEM
        \<in> set (before_connect (calls (setup_tlsconn loopback_lib openssl_ok mutual_tls_proxy)))"
    by blast
  moreover from t a c have "Call_SSL_CTX_use_certificate_file ''client.crt'' SSL_FILETYPE_PEM
        \<in> set (before_connect (calls (setup_tlsconn loopback_lib openssl_ok mutual_tls_proxy)))"
    by blast
  ultimately show ?thesis
    using all_succeed_openssl_ok k c a by blast
qed

subsection \<open>Clearing of the relayed plaintext\<close>

text \<open>
  Claim C9 at a short write.  The socket delivers the five-byte message and \<^verbatim>\<open>BIO_write\<close>
  reports three bytes: \<^verbatim>\<open>proxy_error\<close> ends the process, and \<^verbatim>\<open>kmyth_clear_and_free\<close> has
  not been called on the decrypted message.  When \<^verbatim>\<open>BIO_write\<close> reports all five bytes,
  the message is cleared and freed before the next \<^verbatim>\<open>poll()\<close>.
\<close>

theorem short_write_exits_without_clearing:
  "proxy_loop loopback_lib 16 [inbound_round 3] (replicate 16 0) connected_proxy =
     (Exit EXIT_FAILURE, proxy_init loopback_lib connected_proxy,
      [Call_poll, Call_ecdh_recv_decrypt, Call_BIO_write hello 5, Call_cleanup,
       Call_BIO_free_all 2, Call_SSL_CTX_free 1])
   \<and> Call_kmyth_clear_and_free hello \<notin>
       set (calls (proxy_loop loopback_lib 16 [inbound_round 3] (replicate 16 0) connected_proxy))
   \<and> calls (proxy_loop loopback_lib 16 [inbound_round 5] (replicate 16 0) connected_proxy) =
      [Call_poll, Call_ecdh_recv_decrypt, Call_BIO_write hello 5,
       Call_kmyth_clear_and_free hello, Call_poll]"
  by code_simp

subsection \<open>Fatal errors\<close>

text \<open>
  Claim C1 as stated fails.  When \<^verbatim>\<open>BIO_do_connect\<close> fails, \<^verbatim>\<open>setup_tlsconn\<close> does not
  return: the process ends with \<^verbatim>\<open>EXIT_FAILURE\<close>, which is not zero.
\<close>

theorem failed_connect_exits_process:
  "result (setup_tlsconn loopback_lib (openssl_ok\<lparr>BIO_do_connect_r := 0\<rparr>) sample_proxy) =
     Exit EXIT_FAILURE
   \<and> EXIT_FAILURE \<noteq> 0"
  by code_simp

lemma setup_tlsconn_result:
  "result (setup_tlsconn lib os p) =
     (if fst (tls_config_ctx os (tlsconn p)) = 0 \<and>
         fst (tls_config_conn os ((tlsconn p)\<lparr>ctx := SSL_CTX_new_r os\<rparr>)) = 0 \<and>
         BIO_do_connect_r os = 1
      then Return 0 else Exit EXIT_FAILURE)"
  by (cases "fst (tls_config_ctx os (tlsconn p)) = 0";
      cases "fst (tls_config_conn os ((tlsconn p)\<lparr>ctx := SSL_CTX_new_r os\<rparr>)) = 0";
      cases "BIO_do_connect_r os = 1")
     (simp_all add: setup_tlsconn_ctx_fails setup_tlsconn_conn_fails setup_tlsconn_connect)

lemma setup_tlsconn_exit_state:
  "result (setup_tlsconn lib os p) \<noteq> Return 0 \<Longrightarrow> final (setup_tlsconn lib os p) = proxy_init lib p"
  by (cases "fst (tls_config_ctx os (tlsconn p)) = 0";
      cases "fst (tls_config_conn os ((tlsconn p)\<lparr>ctx := SSL_CTX_new_r os\<rparr>)) = 0";
      cases "BIO_do_connect_r os = 1")
     (simp_all add: setup_tlsconn_ctx_fails setup_tlsconn_conn_fails setup_tlsconn_connect)

text \<open>
  Claim C1, amended.  \<^verbatim>\<open>proxy_error\<close> tears the session down, leaving the proxy in the
  state that \<^verbatim>\<open>proxy_init\<close> produces, and then ends the process with \<^verbatim>\<open>EXIT_FAILURE\<close>,
  which is not zero; it never returns.  Every failure of the session that
  \<^verbatim>\<open>tls_proxy.c\<close> detects ends this way: a failure of \<^verbatim>\<open>tls_config_ctx\<close>, of
  \<^verbatim>\<open>tls_config_conn\<close> or of \<^verbatim>\<open>BIO_do_connect\<close>, a \<^verbatim>\<open>BIO_write\<close> whose result differs from the
  length of the message, and a negative result of \<^verbatim>\<open>BIO_read\<close>.
\<close>

theorem session_fatal_error_exits_process:
  "result (proxy_error lib p :: unit run) = Exit EXIT_FAILURE
   \<and> final (proxy_error lib p :: unit run) = proxy_init lib p
   \<and> EXIT_FAILURE \<noteq> 0
   \<and> (fst (tls_config_ctx os (tlsconn p)) \<noteq> 0 \<or>
       fst (tls_config_conn os ((tlsconn p)\<lparr>ctx := SSL_CTX_new_r os\<rparr>)) \<noteq> 0 \<or>
       BIO_do_connect_r os \<noteq> 1 \<longrightarrow>
         result (setup_tlsconn lib os p) = Exit EXIT_FAILURE \<and>
         final (setup_tlsconn lib os p) = proxy_init lib p)
   \<and> (revents0 r AND POLLIN \<noteq> 0 \<and>
       ecdh_recv_decrypt lib (ecdhconn p) (socket_in r) = Inr (e, msg) \<and>
       (scast (BIO_write_r r) :: 64 word) \<noteq> word_of_nat (length msg) \<longrightarrow>
         result (proxy_loop lib M (r # rs) buf p) = Exit EXIT_FAILURE \<and>
         final (proxy_loop lib M (r # rs) buf p) = proxy_init lib p)
   \<and> (revents1 r AND POLLIN \<noteq> 0 \<and> inbound_part lib r p = (Return (), p1, es1) \<and>
       sint (BIO_read_r r) < 0 \<longrightarrow>
         result (proxy_loop lib M (r # rs) buf p) = Exit EXIT_FAILURE \<and>
         final (proxy_loop lib M (r # rs) buf p) = proxy_init lib p)"
proof (intro conjI impI)
  show "result (proxy_error lib p :: unit run) = Exit EXIT_FAILURE"
    and "final (proxy_error lib p :: unit run) = proxy_init lib p"
    by (simp_all add: proxy_error_eq [of lib p p])
  show "EXIT_FAILURE \<noteq> 0"
    by (simp add: EXIT_FAILURE_def)
next
  assume f: "fst (tls_config_ctx os (tlsconn p)) \<noteq> 0 \<or>
       fst (tls_config_conn os ((tlsconn p)\<lparr>ctx := SSL_CTX_new_r os\<rparr>)) \<noteq> 0 \<or>
       BIO_do_connect_r os \<noteq> 1"
  then show x: "result (setup_tlsconn lib os p) = Exit EXIT_FAILURE"
    by (auto simp add: setup_tlsconn_result)
  then show "final (setup_tlsconn lib os p) = proxy_init lib p"
    by (simp add: setup_tlsconn_exit_state)
next
  assume a: "revents0 r AND POLLIN \<noteq> 0 \<and>
       ecdh_recv_decrypt lib (ecdhconn p) (socket_in r) = Inr (e, msg) \<and>
       (scast (BIO_write_r r) :: 64 word) \<noteq> word_of_nat (length msg)"
  then have "inbound_part lib r p =
      (Exit EXIT_FAILURE, proxy_init lib p,
       [Call_ecdh_recv_decrypt, Call_BIO_write msg (word_of_nat (length msg)), Call_cleanup] @
       tls_cleanup (tlsconn p))"
    by (simp add: inbound_part_def relay_inbound_recv)
  from proxy_iter_inbound_stops [OF this, of M buf]
  show "result (proxy_loop lib M (r # rs) buf p) = Exit EXIT_FAILURE"
    and "final (proxy_loop lib M (r # rs) buf p) = proxy_init lib p"
    by simp_all
next
  assume a: "revents1 r AND POLLIN \<noteq> 0 \<and> inbound_part lib r p = (Return (), p1, es1) \<and>
       sint (BIO_read_r r) < 0"
  then have ib: "inbound_part lib r p = (Return (), p1, es1)" by simp
  from a have "proxy_iter lib M r buf p =
      (Exit EXIT_FAILURE, proxy_init lib p,
       Call_poll # es1 @ Call_BIO_read M # Call_cleanup # tls_cleanup (tlsconn p1))"
    by (simp add: proxy_iter_outbound [OF ib] relay_outbound_error
          proxy_cleanup_state [of lib p1 p, symmetric] proxy_cleanup_state [of lib p1 p1])
  then show "result (proxy_loop lib M (r # rs) buf p) = Exit EXIT_FAILURE"
    and "final (proxy_loop lib M (r # rs) buf p) = proxy_init lib p"
    by simp_all
qed

text \<open>A failed connect, a short write and a failed read.\<close>

theorem session_fatal_error_exits_process_witness:
  "BIO_do_connect_r (openssl_ok\<lparr>BIO_do_connect_r := 0\<rparr>) \<noteq> 1
   \<and> result (setup_tlsconn loopback_lib (openssl_ok\<lparr>BIO_do_connect_r := 0\<rparr>) sample_proxy) =
       Exit EXIT_FAILURE
   \<and> revents0 (inbound_round 3) AND POLLIN \<noteq> 0
   \<and> ecdh_recv_decrypt loopback_lib (ecdhconn connected_proxy) (socket_in (inbound_round 3)) =
       Inr (ecdhconn connected_proxy, hello)
   \<and> (scast (BIO_write_r (inbound_round 3)) :: 64 word) \<noteq> word_of_nat (length hello)
   \<and> result (proxy_loop loopback_lib 16 [inbound_round 3] (replicate 16 0) connected_proxy) =
       Exit EXIT_FAILURE
   \<and> revents1 (outbound_round (- 1) []) AND POLLIN \<noteq> 0
   \<and> inbound_part loopback_lib (outbound_round (- 1) []) connected_proxy =
       (Return (), connected_proxy, [])
   \<and> sint (BIO_read_r (outbound_round (- 1) [])) < 0
   \<and> result (proxy_loop loopback_lib 16 [outbound_round (- 1) []] (replicate 16 0)
        connected_proxy) = Exit EXIT_FAILURE"
proof -
  have a: "BIO_do_connect_r (openssl_ok\<lparr>BIO_do_connect_r := 0\<rparr>) \<noteq> 1"
    by simp
  have b: "revents0 (inbound_round 3) AND POLLIN \<noteq> 0 \<and>
     ecdh_recv_decrypt loopback_lib (ecdhconn connected_proxy) (socket_in (inbound_round 3)) =
       Inr (ecdhconn connected_proxy, hello) \<and>
     (scast (BIO_write_r (inbound_round 3)) :: 64 word) \<noteq> word_of_nat (length hello)"
    by (simp add: inbound_round_def POLLIN_def loopback_lib_def hello_def)
  have c: "revents1 (outbound_round (- 1) []) AND POLLIN \<noteq> 0 \<and>
     inbound_part loopback_lib (outbound_round (- 1) []) connected_proxy =
       (Return (), connected_proxy, []) \<and>
     sint (BIO_read_r (outbound_round (- 1) [])) < 0"
    by (simp add: outbound_round_def POLLIN_def inbound_part_def)
  note t1 = session_fatal_error_exits_process [where lib = loopback_lib and os = "openssl_ok\<lparr>BIO_do_connect_r := 0\<rparr>"
      and p = sample_proxy, THEN conjunct2, THEN conjunct2, THEN conjunct2, THEN conjunct1]
  note t2 = session_fatal_error_exits_process [where lib = loopback_lib and p = connected_proxy and r = "inbound_round 3"
      and e = "ecdhconn connected_proxy" and msg = hello and M = 16 and rs = "[]"
      and buf = "replicate 16 0",
      THEN conjunct2, THEN conjunct2, THEN conjunct2, THEN conjunct2, THEN conjunct1]
  note t3 = session_fatal_error_exits_process [where lib = loopback_lib and p = connected_proxy
      and r = "outbound_round (- 1) []" and ?p1.0 = connected_proxy and ?es1.0 = "[]" and M = 16
      and rs = "[]" and buf = "replicate 16 0",
      THEN conjunct2, THEN conjunct2, THEN conjunct2, THEN conjunct2, THEN conjunct2]
  from t1 a have "result (setup_tlsconn loopback_lib (openssl_ok\<lparr>BIO_do_connect_r := 0\<rparr>)
      sample_proxy) = Exit EXIT_FAILURE"
    by blast
  moreover from t2 b have "result (proxy_loop loopback_lib 16 [inbound_round 3] (replicate 16 0)
      connected_proxy) = Exit EXIT_FAILURE"
    by blast
  moreover from t3 c have "result (proxy_loop loopback_lib 16 [outbound_round (- 1) []]
      (replicate 16 0) connected_proxy) = Exit EXIT_FAILURE"
    by blast
  ultimately show ?thesis
    using a b c by blast
qed

subsection \<open>Exit status\<close>

lemma atoi_examples:
  "atoi ''42'' = 42" "atoi '' -7x'' = - 7" "atoi ''99999999999'' = 1215752191"
  by code_simp+










































end
